theory Spec2Isabelle
  imports Main "HOL-Library.Sublist" "HOL-Library.Multiset"
begin

section \<open>Strings\<close>

text \<open>
  Strings are byte strings (UTF-8). The three string operations the component uses are
  \<^verbatim>\<open>toLowerCase\<close>, \<^verbatim>\<open>includes\<close> and \<^verbatim>\<open>trim\<close>. Case folding is modelled on the
  ASCII letters, every other byte is kept; all keywords of the classifier are ASCII.
  JavaScript folds letters beyond ASCII as well; their lower-case forms are again beyond
  ASCII, except for U+0130 and U+212A, whose lower-case forms contain the letters \<open>i\<close>
  and \<open>k\<close>: titles with these two code points are outside the model.
\<close>

definition lower_char :: "char \<Rightarrow> char" where
  "lower_char c =
     (let n = (of_char c :: nat) in if 65 \<le> n \<and> n \<le> 90 then char_of (n + 32) else c)"

definition toLowerCase :: "string \<Rightarrow> string" where
  "toLowerCase s = map lower_char s"

text \<open>\<^verbatim>\<open>t.includes(k)\<close>: the keyword starts at some position of the text.\<close>

fun includes_str :: "string \<Rightarrow> string \<Rightarrow> bool" where
  "includes_str [] k = (k = [])"
| "includes_str (c # cs) k = (prefix k (c # cs) \<or> includes_str cs k)"

text \<open>
  \<^verbatim>\<open>!s.trim()\<close>: the string is empty once white space is trimmed, that is, it consists
  of white space only. White space is the ASCII set (tab, line feed, vertical tab, form
  feed, carriage return, space) and the UTF-8 encodings of the other code points that
  \<^verbatim>\<open>trim\<close> removes (U+00A0, U+1680, U+2000 to U+200A, U+2028, U+2029, U+202F, U+205F,
  U+3000, U+FEFF).
\<close>

definition ascii_space :: "char \<Rightarrow> bool" where
  "ascii_space c = (let n = (of_char c :: nat) in (9 \<le> n \<and> n \<le> 13) \<or> n = 32)"

fun trim_is_empty :: "string \<Rightarrow> bool" where
  "trim_is_empty [] = True"
| "trim_is_empty (a # b # c # cs) =
     (if ascii_space a then trim_is_empty (b # c # cs)
      else if a = CHR 0xC2 \<and> b = CHR 0xA0 then trim_is_empty (c # cs)
      else if (a = CHR 0xE1 \<and> b = CHR 0x9A \<and> c = CHR 0x80)
            \<or> (a = CHR 0xE2 \<and> b = CHR 0x80 \<and> (of_char c :: nat) \<in> {0x80..0x8A} \<union> {0xA8, 0xA9, 0xAF})
            \<or> (a = CHR 0xE2 \<and> b = CHR 0x81 \<and> c = CHR 0x9F)
            \<or> (a = CHR 0xE3 \<and> b = CHR 0x80 \<and> c = CHR 0x80)
            \<or> (a = CHR 0xEF \<and> b = CHR 0xBB \<and> c = CHR 0xBF)
      then trim_is_empty cs
      else False)"
| "trim_is_empty (a # b # cs) =
     (if ascii_space a then trim_is_empty (b # cs)
      else if a = CHR 0xC2 \<and> b = CHR 0xA0 then trim_is_empty cs
      else False)"
| "trim_is_empty [a] = ascii_space a"

text \<open>JavaScript truthiness of an optional string field: present and not empty.\<close>

definition truthy :: "string option \<Rightarrow> bool" where
  "truthy v = (case v of None \<Rightarrow> False | Some s \<Rightarrow> s \<noteq> [])"

text \<open>Decimal rendering of a number, as \<^verbatim>\<open>toString\<close> and template literals give it.\<close>

fun show_nat :: "nat \<Rightarrow> string" where
  "show_nat n =
     (if n < 10 then [char_of (48 + n)] else show_nat (n div 10) @ [char_of (48 + n mod 10)])"

declare show_nat.simps [simp del]

section \<open>Subject classification\<close>

text \<open>
  The table of \<^verbatim>\<open>determineSubject\<close>, in the order of the object literal, which is the
  order \<^verbatim>\<open>Object.entries\<close> yields.
\<close>

definition subjectKeywords :: "(string \<times> string list) list" where
  "subjectKeywords =
     [(''Physics'', [''physics'', ''quantum'', ''mechanics'', ''thermodynamics'', ''energy'', ''force'']),
      (''Biology'', [''biology'', ''cell'', ''dna'', ''evolution'', ''organism'', ''photosynthesis'']),
      (''Mathematics'', [''math'', ''calculus'', ''algebra'', ''geometry'', ''statistics'', ''equation'']),
      (''Chemistry'', [''chemistry'', ''molecule'', ''reaction'', ''element'', ''compound'']),
      (''Computer Science'', [''programming'', ''algorithm'', ''data structure'', ''computer'', ''code'']),
      (''Economics'', [''economics'', ''market'', ''supply'', ''demand'', ''finance'', ''trade''])]"

text \<open>\<^verbatim>\<open>keywords.some(keyword => topicLower.includes(keyword))\<close>\<close>

definition some_keyword :: "string list \<Rightarrow> string \<Rightarrow> bool" where
  "some_keyword keywords topicLower = list_ex (\<lambda>keyword. includes_str topicLower keyword) keywords"

text \<open>The \<^verbatim>\<open>for\<close> loop over the table, returning at the first hit.\<close>

fun first_subject :: "(string \<times> string list) list \<Rightarrow> string \<Rightarrow> string" where
  "first_subject [] topicLower = ''General''"
| "first_subject ((subject, keywords) # rest) topicLower =
     (if some_keyword keywords topicLower then subject else first_subject rest topicLower)"

definition determineSubject :: "string \<Rightarrow> string" where
  "determineSubject topic = first_subject subjectKeywords (toLowerCase topic)"

text \<open>
  The specification's reading of a match: the lowered title contains, as a contiguous
  substring, some keyword of the subject at position \<open>i\<close> of the table.
\<close>

definition subject_matches :: "nat \<Rightarrow> string \<Rightarrow> bool" where
  "subject_matches i topic =
     (\<exists>keyword \<in> set (snd (subjectKeywords ! i)). sublist keyword (toLowerCase topic))"

section \<open>Data model\<close>

text \<open>
  The interfaces of the component. A \<^verbatim>\<open>Date\<close> is its millisecond count; the numeric
  fields hold small whole numbers and are integers here. The field \<^verbatim>\<open>id\<close> of each
  interface carries the interface's name, since the three live in one name space.
\<close>

record User =
  user_id :: string
  user_name :: string
  email :: string
  avatar :: "string option"

record Study =
  study_id :: string
  title :: string
  subject :: string
  lastActive :: nat
  progress :: int
  questionsAnswered :: int
  difficulty :: int

record StudyGroup =
  group_id :: string
  name :: string
  icon :: string
  color :: string
  studies :: "Study list"

datatype MessageType = user_type | ai_type

record Message =
  msg_id :: string
  msg_type :: MessageType
  content :: string
  timestamp :: nat

text \<open>
  The state of the component: the \<^verbatim>\<open>useState\<close> cells that the study handlers read or
  write, and the \<^verbatim>\<open>useRef\<close> counter of message ids. Cells that only steer the view
  (theme, side bar, login dialogue, current view) are not part of it.
\<close>

record App =
  user :: "User option"
  studyGroups :: "StudyGroup list"
  activeStudy :: "Study option"
  messages :: "Message list"
  messagesMap :: "string \<rightharpoonup> Message list"
  sessionIdMap :: "string \<rightharpoonup> string"
  messageIdRef :: nat
  inputValue :: string
  isConnected :: bool
  isLoading :: bool
  isInitializingStudy :: bool

text \<open>
  The body of a \<^verbatim>\<open>POST /chat\<close> request, and what the exchange gives back: \<open>Failed\<close>
  stands for every way \<^verbatim>\<open>sendMessageToBackend\<close> throws (the request cannot be sent, the
  status is not 2xx, the body is not a JSON object), \<open>Replied\<close> carries the three fields
  the handlers read from the parsed body.
\<close>

record ChatRequest =
  req_message :: string
  req_session_id :: "string option"

record ChatData =
  response :: "string option"
  session_id :: "string option"
  phase :: "string option"

datatype Outcome = Failed | Replied ChatData

section \<open>Handlers\<close>

text \<open>
  A handler is a closure of one render: its free variables (\<^verbatim>\<open>user\<close>,
  \<^verbatim>\<open>activeStudy\<close>, \<^verbatim>\<open>messages\<close>, \<^verbatim>\<open>messagesMap\<close>, \<^verbatim>\<open>sessionIdMap\<close>, \<^verbatim>\<open>inputValue\<close>,
  \<^verbatim>\<open>isConnected\<close>) hold the state \<open>c\<close> of that render for as long as the handler runs,
  also after an \<^verbatim>\<open>await\<close>. Its \<^verbatim>\<open>set...\<close> calls change the state \<open>s\<close> that is
  current when they run; an updater \<^verbatim>\<open>prev => ...\<close> reads \<open>s\<close>, every other value
  is read from \<open>c\<close>. An event runs the handler of the current render, so there \<open>c = s\<close>.
  An asynchronous handler is given in two parts: the part that runs up to the request
  (\<open>_begin\<close>, returning the request if one is sent) and the part that runs when the
  exchange is over (\<open>_settle\<close>). The clock of one such part is the argument \<open>t\<close>.
\<close>

definition generateMessageId :: "nat \<Rightarrow> App \<Rightarrow> string \<times> App" where
  "generateMessageId t s =
     (''msg_'' @ show_nat t @ ''_'' @ show_nat (messageIdRef s + 1),
      s\<lparr>messageIdRef := messageIdRef s + 1\<rparr>)"

subsection \<open>\<^verbatim>\<open>sendMessageToBackend\<close>\<close>

definition sessionIdToUse :: "App \<Rightarrow> bool \<Rightarrow> string option" where
  "sessionIdToUse c forceNewSession =
     (case activeStudy c of
        None \<Rightarrow> None
      | Some a \<Rightarrow>
          if forceNewSession then None
          else if truthy (sessionIdMap c (study_id a)) then sessionIdMap c (study_id a)
          else None)"

definition backend_request :: "App \<Rightarrow> string \<Rightarrow> bool \<Rightarrow> ChatRequest" where
  "backend_request c message forceNewSession =
     \<lparr>req_message = message, req_session_id = sessionIdToUse c forceNewSession\<rparr>"

text \<open>
  When the exchange is over: a session id of the reply is stored under the id of the
  closure's active study, and \<^verbatim>\<open>finally\<close> clears the loading flag.
\<close>

definition backend_settle :: "App \<Rightarrow> Outcome \<Rightarrow> App \<Rightarrow> App" where
  "backend_settle c outcome s =
     (case outcome of
        Failed \<Rightarrow> s\<lparr>isLoading := False\<rparr>
      | Replied d \<Rightarrow>
          (case (session_id d, activeStudy c) of
             (Some sid, Some a) \<Rightarrow>
               if sid \<noteq> [] then s\<lparr>sessionIdMap := (sessionIdMap s)(study_id a \<mapsto> sid), isLoading := False\<rparr>
               else s\<lparr>isLoading := False\<rparr>
           | _ \<Rightarrow> s\<lparr>isLoading := False\<rparr>))"

subsection \<open>Icons and colours\<close>

text \<open>The icon strings are the bytes the source file has between the quotes.\<close>

definition default_icon :: string where
  "default_icon = [CHR 0xC3, CHR 0xB0, CHR 0xC5, CHR 0xB8, CHR 0xE2, CHR 0x80, CHR 0x9C, CHR 0xC5, CHR 0xA1]"

definition icons :: "(string \<times> string) list" where
  "icons =
     [(''Physics'', [CHR 0xC3, CHR 0xA2, CHR 0xC5, CHR 0xA1, CHR 0xE2, CHR 0x80, CHR 0xBA, CHR 0xC3, CHR 0xAF, CHR 0xC2, CHR 0xB8]),
      (''Biology'', [CHR 0xC3, CHR 0xB0, CHR 0xC5, CHR 0xB8, CHR 0xC2, CHR 0xA7, CHR 0xC2, CHR 0xAC]),
      (''Mathematics'', [CHR 0xC3, CHR 0xB0, CHR 0xC5, CHR 0xB8, CHR 0xE2, CHR 0x80, CHR 0x9C]),
      (''Chemistry'', [CHR 0xC3, CHR 0xB0, CHR 0xC5, CHR 0xB8, CHR 0xC2, CHR 0xA7, CHR 0xC2, CHR 0xAA]),
      (''Computer Science'', [CHR 0xC3, CHR 0xB0, CHR 0xC5, CHR 0xB8, CHR 0xE2, CHR 0x80, CHR 0x99, CHR 0xC2, CHR 0xBB]),
      (''Economics'', [CHR 0xC3, CHR 0xB0, CHR 0xC5, CHR 0xB8, CHR 0xE2, CHR 0x80, CHR 0x9C, CHR 0xC5, CHR 0xA0]),
      (''General'', default_icon)]"

definition getSubjectIcon :: "string \<Rightarrow> string" where
  "getSubjectIcon subj =
     (case map_of icons subj of None \<Rightarrow> default_icon | Some v \<Rightarrow> if v = [] then default_icon else v)"

definition colors :: "(string \<times> string) list" where
  "colors =
     [(''Physics'', ''blue''), (''Biology'', ''green''), (''Mathematics'', ''purple''),
      (''Chemistry'', ''orange''), (''Computer Science'', ''indigo''), (''Economics'', ''red''),
      (''General'', ''gray'')]"

definition getSubjectColor :: "string \<Rightarrow> string" where
  "getSubjectColor subj =
     (case map_of colors subj of None \<Rightarrow> ''gray'' | Some v \<Rightarrow> if v = [] then ''gray'' else v)"

subsection \<open>\<^verbatim>\<open>startNewStudy\<close>\<close>

definition newStudy :: "nat \<Rightarrow> string \<Rightarrow> Study" where
  "newStudy t topic =
     \<lparr>study_id = show_nat t, title = topic, subject = determineSubject topic, lastActive = t,
      progress = 0, questionsAnswered = 0, difficulty = 1\<rparr>"

text \<open>\<^verbatim>\<open>findIndex\<close>, with \<open>None\<close> for its \<open>-1\<close>.\<close>

fun findIndex :: "('a \<Rightarrow> bool) \<Rightarrow> 'a list \<Rightarrow> nat option" where
  "findIndex p [] = None"
| "findIndex p (x # xs) = (if p x then Some 0 else map_option Suc (findIndex p xs))"

definition newGroup :: "Study \<Rightarrow> StudyGroup" where
  "newGroup st =
     \<lparr>group_id = toLowerCase (subject st), name = subject st, icon = getSubjectIcon (subject st),
      color = getSubjectColor (subject st), studies = [st]\<rparr>"

text \<open>
  The updater given to \<^verbatim>\<open>setStudyGroups\<close>: \<^verbatim>\<open>unshift\<close> puts the study at the front of
  the group found, otherwise a new group goes to the front of the list.
\<close>

definition addToStudyGroups :: "Study \<Rightarrow> StudyGroup list \<Rightarrow> StudyGroup list" where
  "addToStudyGroups st prev =
     (case findIndex (\<lambda>group. name group = subject st) prev of
        Some existingGroupIndex \<Rightarrow>
          prev[existingGroupIndex :=
                 (prev ! existingGroupIndex)\<lparr>studies := st # studies (prev ! existingGroupIndex)\<rparr>]
      | None \<Rightarrow> newGroup st # prev)"

text \<open>``Save current messages to map if there's an active study''.\<close>

definition saveCurrentMessages :: "App \<Rightarrow> App \<Rightarrow> App" where
  "saveCurrentMessages c s =
     (case activeStudy c of
        None \<Rightarrow> s
      | Some a \<Rightarrow> s\<lparr>messagesMap := (messagesMap s)(study_id a \<mapsto> messages c)\<rparr>)"

definition startFallback :: "string \<Rightarrow> string" where
  "startFallback topic =
     ''Great! Let's start learning about \"'' @ topic @
     ''\". I'll use the Feynman Technique to help you master this concept. Can you begin by explaining what you already know about this topic in simple terms?''"

definition startNewStudy_begin :: "nat \<Rightarrow> string \<Rightarrow> App \<Rightarrow> App \<Rightarrow> App \<times> ChatRequest option" where
  "startNewStudy_begin t topic c s =
     (case user c of
        None \<Rightarrow> (s, None)
      | Some u \<Rightarrow>
          let s1 = s\<lparr>studyGroups := addToStudyGroups (newStudy t topic) (studyGroups s)\<rparr>;
              s2 = saveCurrentMessages c s1;
              s3 = s2\<lparr>activeStudy := Some (newStudy t topic), messages := []\<rparr>
          in (s3\<lparr>isLoading := True\<rparr>,
              Some (backend_request c (''I want to learn about '' @ topic) True)))"

definition aiMessage :: "string \<Rightarrow> string \<Rightarrow> nat \<Rightarrow> Message" where
  "aiMessage mid text t = \<lparr>msg_id = mid, msg_type = ai_type, content = text, timestamp = t\<rparr>"

definition startNewStudy_settle :: "nat \<Rightarrow> string \<Rightarrow> App \<Rightarrow> nat \<Rightarrow> Outcome \<Rightarrow> App \<Rightarrow> App" where
  "startNewStudy_settle t0 topic c t outcome s =
     (let s1 = backend_settle c outcome s in
      case outcome of
        Replied d \<Rightarrow>
          (case response d of
             None \<Rightarrow> s1
           | Some text \<Rightarrow>
               if text = [] then s1
               else
                 let (mid, s2) = generateMessageId t s1;
                     m = aiMessage mid text t
                 in s2\<lparr>messages := [m],
                       messagesMap := (messagesMap s2)(study_id (newStudy t0 topic) \<mapsto> [m])\<rparr>)
      | Failed \<Rightarrow>
          let (mid, s2) = generateMessageId t s1;
              m = aiMessage mid (startFallback topic) t
          in s2\<lparr>messages := [m],
                messagesMap := (messagesMap s2)(study_id (newStudy t0 topic) \<mapsto> [m])\<rparr>)"

subsection \<open>\<^verbatim>\<open>switchToStudy\<close> and \<^verbatim>\<open>continueStudySession\<close>\<close>

text \<open>
  The test \<^verbatim>\<open>!sessionIdMap[study.id] && messagesMap[study.id]?.length === 0\<close>: with no
  entry in the map the length is \<^verbatim>\<open>undefined\<close>, which is not \<open>0\<close>.
\<close>

definition needsSession :: "App \<Rightarrow> Study \<Rightarrow> bool" where
  "needsSession c study =
     (\<not> truthy (sessionIdMap c (study_id study))
      \<and> (case messagesMap c (study_id study) of None \<Rightarrow> False | Some ms \<Rightarrow> length ms = 0))"

definition continueStudySession_begin :: "Study \<Rightarrow> App \<Rightarrow> App \<Rightarrow> App \<times> ChatRequest option" where
  "continueStudySession_begin study c s =
     (if needsSession c study
      then (s\<lparr>isInitializingStudy := True, isLoading := True\<rparr>,
            Some (backend_request c (''I want to continue learning about '' @ title study) True))
      else (s, None))"

definition continueStudySession_settle :: "Study \<Rightarrow> App \<Rightarrow> nat \<Rightarrow> Outcome \<Rightarrow> App \<Rightarrow> App" where
  "continueStudySession_settle study c t outcome s =
     (let s1 = backend_settle c outcome s;
          s3 = (case outcome of
                  Replied d \<Rightarrow>
                    (case response d of
                       None \<Rightarrow> s1
                     | Some text \<Rightarrow>
                         if text = [] then s1
                         else
                           let (mid, s2) = generateMessageId t s1;
                               m = aiMessage mid text t
                           in s2\<lparr>messages := [m],
                                 messagesMap := (messagesMap s2)(study_id study \<mapsto> [m])\<rparr>)
                | Failed \<Rightarrow> s1)
      in s3\<lparr>isInitializingStudy := False\<rparr>)"

definition switchToStudy :: "Study \<Rightarrow> App \<Rightarrow> App \<Rightarrow> App \<times> ChatRequest option" where
  "switchToStudy study c s =
     (let s1 = saveCurrentMessages c s;
          s2 = s1\<lparr>activeStudy := Some study,
                  messages := (case messagesMap c (study_id study) of None \<Rightarrow> [] | Some ms \<Rightarrow> ms)\<rparr>
      in if needsSession c study then continueStudySession_begin study c s2 else (s2, None))"

subsection \<open>\<^verbatim>\<open>sendMessage\<close>\<close>

text \<open>
  \<^verbatim>\<open>setMessages(prev => ...)\<close> with \<^verbatim>\<open>setMessagesMap\<close> inside: the message goes to the end
  of the current list, and the new list is stored under the closure's active study.
\<close>

definition appendMessage :: "App \<Rightarrow> Message \<Rightarrow> App \<Rightarrow> App" where
  "appendMessage c m s =
     (let newMessages = messages s @ [m] in
      case activeStudy c of
        None \<Rightarrow> s\<lparr>messages := newMessages\<rparr>
      | Some a \<Rightarrow> s\<lparr>messages := newMessages,
                     messagesMap := (messagesMap s)(study_id a \<mapsto> newMessages)\<rparr>)"

definition sendMessage_begin :: "nat \<Rightarrow> App \<Rightarrow> App \<Rightarrow> App \<times> ChatRequest option" where
  "sendMessage_begin t c s =
     (if trim_is_empty (inputValue c) \<or> activeStudy c = None then (s, None)
      else
        let (mid, s1) = generateMessageId t s;
            userMessage = \<lparr>msg_id = mid, msg_type = user_type, content = inputValue c, timestamp = t\<rparr>;
            s2 = appendMessage c userMessage s1;
            s3 = s2\<lparr>inputValue := []\<rparr>
        in (s3\<lparr>isLoading := True\<rparr>, Some (backend_request c (inputValue c) False)))"

definition troubleText :: string where
  "troubleText = ''I'm having trouble processing your response right now. Please try again in a moment.''"

definition offlineText :: string where
  "offlineText = ''I'm currently offline. Your message has been saved and I'll respond when the connection is restored.''"

definition updatedStudy :: "Study \<Rightarrow> nat \<Rightarrow> string \<Rightarrow> Study" where
  "updatedStudy a t ph =
     a\<lparr>lastActive := t,
       questionsAnswered := questionsAnswered a + 1,
       progress := (if ph = ''feynman_tutoring'' then min (progress a + 10) 100 else progress a)\<rparr>"

definition updateStudyGroups :: "Study \<Rightarrow> Study \<Rightarrow> StudyGroup list \<Rightarrow> StudyGroup list" where
  "updateStudyGroups a u prev =
     map (\<lambda>group. group\<lparr>studies := map (\<lambda>study. if study_id study = study_id a then u else study)
                                        (studies group)\<rparr>) prev"

definition sendMessage_settle :: "App \<Rightarrow> nat \<Rightarrow> Outcome \<Rightarrow> App \<Rightarrow> App" where
  "sendMessage_settle c t outcome s =
     (let s1 = backend_settle c outcome s in
      case outcome of
        Replied d \<Rightarrow>
          (case response d of
             None \<Rightarrow> s1
           | Some text \<Rightarrow>
               if text = [] then s1
               else
                 let (mid, s2) = generateMessageId t s1;
                     s3 = appendMessage c (aiMessage mid text t) s2
                 in (case (phase d, activeStudy c) of
                       (Some ph, Some a) \<Rightarrow>
                         if ph = [] then s3
                         else s3\<lparr>activeStudy := Some (updatedStudy a t ph),
                                 studyGroups := updateStudyGroups a (updatedStudy a t ph) (studyGroups s3)\<rparr>
                     | _ \<Rightarrow> s3))
      | Failed \<Rightarrow>
          let (mid, s2) = generateMessageId t s1
          in appendMessage c (aiMessage mid (if isConnected c then troubleText else offlineText) t) s2)"

subsection \<open>Whole calls\<close>

text \<open>
  A call whose exchange is over before the next event: the handler of the render of \<open>s\<close>
  runs at time \<open>t0\<close>, and continues at time \<open>t\<close> with the outcome of its request.
\<close>

definition startNewStudy :: "nat \<Rightarrow> string \<Rightarrow> nat \<Rightarrow> Outcome \<Rightarrow> App \<Rightarrow> App" where
  "startNewStudy t0 topic t outcome s =
     (case startNewStudy_begin t0 topic s s of
        (s', None) \<Rightarrow> s'
      | (s', Some req) \<Rightarrow> startNewStudy_settle t0 topic s t outcome s')"

definition sendMessage :: "nat \<Rightarrow> nat \<Rightarrow> Outcome \<Rightarrow> App \<Rightarrow> App" where
  "sendMessage t0 t outcome s =
     (case sendMessage_begin t0 s s of
        (s', None) \<Rightarrow> s'
      | (s', Some req) \<Rightarrow> sendMessage_settle s t outcome s')"

subsection \<open>The events of the view\<close>

text \<open>
  The chat input calls \<^verbatim>\<open>sendMessage\<close> on the Enter key unless a flag is set; the send
  button is disabled on blank input or a set flag, and starts a study when none is
  active; a row of the side bar calls \<^verbatim>\<open>switchToStudy\<close>; the ``New Study Session''
  button saves the messages and leaves no study active.
\<close>

text \<open>\<^verbatim>\<open>handleLogin\<close> (its state change) and the input's \<^verbatim>\<open>onChange\<close>.\<close>

definition handleLogin :: "nat \<Rightarrow> string \<Rightarrow> string \<Rightarrow> App \<Rightarrow> App" where
  "handleLogin t nm mail s =
     s\<lparr>user := Some \<lparr>user_id = show_nat t, user_name = nm, email = mail,
                       avatar = Some (''https://api.dicebear.com/7.x/avataaars/svg?seed='' @ nm)\<rparr>\<rparr>"

definition typeText :: "string \<Rightarrow> App \<Rightarrow> App" where
  "typeText v s = s\<lparr>inputValue := v\<rparr>"

definition onKeyPress :: "string \<Rightarrow> nat \<Rightarrow> App \<Rightarrow> App \<times> ChatRequest option" where
  "onKeyPress key t s =
     (if key = ''Enter'' \<and> \<not> isLoading s \<and> \<not> isInitializingStudy s
      then sendMessage_begin t s s else (s, None))"

definition onSendClick :: "nat \<Rightarrow> App \<Rightarrow> App \<times> ChatRequest option" where
  "onSendClick t s =
     (if trim_is_empty (inputValue s) \<or> isLoading s \<or> isInitializingStudy s then (s, None)
      else if activeStudy s \<noteq> None then sendMessage_begin t s s
      else startNewStudy_begin t (inputValue s) s s)"

definition onStudyClick :: "Study \<Rightarrow> App \<Rightarrow> App \<times> ChatRequest option" where
  "onStudyClick study s = switchToStudy study s s"

definition onNewSessionClick :: "App \<Rightarrow> App" where
  "onNewSessionClick s = (saveCurrentMessages s s)\<lparr>activeStudy := None, messages := []\<rparr>"

definition initialApp :: App where
  "initialApp =
     \<lparr>user = None, studyGroups = [], activeStudy = None, messages = [], messagesMap = Map.empty,
      sessionIdMap = Map.empty, messageIdRef = 0, inputValue = [], isConnected = False,
      isLoading = False, isInitializingStudy = False\<rparr>"

section \<open>Vocabulary of the properties\<close>

text \<open>The id that \<^verbatim>\<open>generateMessageId\<close> builds at time \<open>t\<close> from the counter value \<open>n\<close>.\<close>

definition message_id :: "nat \<Rightarrow> nat \<Rightarrow> string" where
  "message_id t n = ''msg_'' @ show_nat t @ ''_'' @ show_nat n"

text \<open>
  A run of exchanges on the active study: the user types a text and sends it, and the
  exchange is over (with the given outcome) before the next one. The run gives the state
  after each exchange.
\<close>

fun send_all :: "(string \<times> nat \<times> nat \<times> Outcome) list \<Rightarrow> App \<Rightarrow> App list" where
  "send_all [] s = []"
| "send_all ((v, t0, t, outcome) # rest) s =
     (let s' = sendMessage t0 t outcome (typeText v s) in s' # send_all rest s')"

text \<open>A reply with a text that reports the tutoring phase.\<close>

definition tutoring_reply :: "Outcome \<Rightarrow> bool" where
  "tutoring_reply outcome =
     (case outcome of
        Failed \<Rightarrow> False
      | Replied d \<Rightarrow> truthy (response d) \<and> phase d = Some ''feynman_tutoring'')"

definition active_progress :: "App \<Rightarrow> int" where
  "active_progress s = (case activeStudy s of None \<Rightarrow> 0 | Some a \<Rightarrow> progress a)"

subsection \<open>A concrete session\<close>

text \<open>
  Ada logs in, starts the study ``Quantum Physics'', the backend answers with an
  introduction, and she types her first explanation.
\<close>

definition ada_logged_in :: App where
  "ada_logged_in = handleLogin 1000 ''Ada'' ''ada@example.org'' initialApp"

definition intro_reply :: ChatData where
  "intro_reply = \<lparr>response = Some ''Let's begin...'', session_id = Some ''s1'', phase = Some ''intro''\<rparr>"

definition quantum_started :: App where
  "quantum_started = startNewStudy 2000 ''Quantum Physics'' 2100 (Replied intro_reply) ada_logged_in"

definition quantum_typed :: App where
  "quantum_typed = typeText ''I think energy is quantized'' quantum_started"

definition good_reply :: ChatData where
  "good_reply = \<lparr>response = Some ''Good!'', session_id = None, phase = Some ''feynman_tutoring''\<rparr>"

definition plain_reply :: ChatData where
  "plain_reply = \<lparr>response = Some ''Go on.'', session_id = Some ''s2'', phase = None\<rparr>"

definition empty_reply :: ChatData where
  "empty_reply = \<lparr>response = Some [], session_id = None, phase = Some ''feynman_tutoring''\<rparr>"

definition two_exchanges :: "(string \<times> nat \<times> nat \<times> Outcome) list" where
  "two_exchanges =
     [(''I think energy is quantized'', 3000, 3100, Replied good_reply),
      (''Light comes in packets'', 4000, 4100, Replied good_reply)]"

text \<open>
  Two other courses of the same session: the backend answers the start of the study with
  an empty text, and the start of the study is still waiting for its answer.
\<close>

definition silent_reply :: ChatData where
  "silent_reply = \<lparr>response = Some [], session_id = None, phase = None\<rparr>"

definition quantum_silent :: App where
  "quantum_silent = startNewStudy 2000 ''Quantum Physics'' 2100 (Replied silent_reply) ada_logged_in"

definition quantum_pending :: App where
  "quantum_pending = fst (startNewStudy_begin 2000 ''Quantum Physics'' ada_logged_in ada_logged_in)"

definition quantum_clicked :: App where
  "quantum_clicked = fst (onStudyClick (newStudy 2000 ''Quantum Physics'') quantum_pending)"

definition quantum_initializing :: App where
  "quantum_initializing = fst (onStudyClick (newStudy 2000 ''Quantum Physics'') quantum_clicked)"

subsection \<open>Runs of \<^verbatim>\<open>startNewStudy\<close>\<close>

text \<open>
  A run of calls of \<^verbatim>\<open>startNewStudy\<close>, each given by its time, its title, and the time
  and outcome of its exchange; \<open>created\<close> lists the studies the calls make, the newest
  first. \<open>grouped\<close> says that a list of groups is the list of studies \<open>R\<close> split by
  subject: one group for each subject of \<open>R\<close>, placed by the last study of the subject
  in \<open>R\<close> (the oldest, when \<open>R\<close> has the newest first), holding the studies of that
  subject in the order of \<open>R\<close>.
\<close>

fun start_all :: "(nat \<times> string \<times> nat \<times> Outcome) list \<Rightarrow> App \<Rightarrow> App" where
  "start_all [] s = s"
| "start_all ((t0, topic, t, outcome) # rest) s = start_all rest (startNewStudy t0 topic t outcome s)"

definition created :: "(nat \<times> string \<times> nat \<times> Outcome) list \<Rightarrow> Study list" where
  "created calls = rev (map (\<lambda>(t0, topic, t, outcome). newStudy t0 topic) calls)"

definition grouped :: "StudyGroup list \<Rightarrow> Study list \<Rightarrow> bool" where
  "grouped gs R \<longleftrightarrow>
     map name gs = remdups (map subject R)
     \<and> (\<forall>g \<in> set gs. studies g = filter (\<lambda>st. subject st = name g) R)"

definition three_starts :: "(nat \<times> string \<times> nat \<times> Outcome) list" where
  "three_starts =
     [(2000, ''Quantum Physics'', 2100, Replied intro_reply),
      (3000, ''Calculus'', 3100, Failed),
      (4000, ''Energy and force'', 4100, Failed)]"

section \<open>Properties of the classifier\<close>

lemma includes_sublist: "includes_str t k \<longleftrightarrow> sublist k t"
proof (induction t)
  case Nil
  show ?case by simp
next
  case (Cons c cs)
  show ?case
  proof (cases k)
    case Nil
    then show ?thesis by simp
  next
    case (Cons x xs)
    with Cons.IH show ?thesis by (simp add: sublist_Cons_right)
  qed
qed

lemma some_keyword_iff:
  "some_keyword kws t \<longleftrightarrow> (\<exists>k \<in> set kws. sublist k t)"
  by (simp add: some_keyword_def list_ex_iff includes_sublist)

lemma first_subject_hit:
  "i < length tbl \<Longrightarrow> some_keyword (snd (tbl ! i)) t
     \<Longrightarrow> \<forall>j<i. \<not> some_keyword (snd (tbl ! j)) t
     \<Longrightarrow> first_subject tbl t = fst (tbl ! i)"
proof (induction tbl arbitrary: i)
  case Nil
  then show ?case by simp
next
  case (Cons e tbl)
  obtain subj kws where e: "e = (subj, kws)" by (cases e)
  show ?case
  proof (cases i)
    case 0
    with Cons.prems e show ?thesis by simp
  next
    case (Suc i')
    from Cons.prems(3) Suc have miss: "\<not> some_keyword kws t"
      using e by fastforce
    from Cons.prems Suc have "first_subject tbl t = fst (tbl ! i')"
      by (intro Cons.IH) auto
    with miss e Suc show ?thesis by simp
  qed
qed

lemma first_subject_miss:
  "\<forall>j<length tbl. \<not> some_keyword (snd (tbl ! j)) t \<Longrightarrow> first_subject tbl t = ''General''"
proof (induction tbl)
  case Nil
  show ?case by simp
next
  case (Cons e tbl)
  obtain subj kws where e: "e = (subj, kws)" by (cases e)
  from Cons.prems have "\<not> some_keyword kws t"
    using e by fastforce
  moreover from Cons.prems have "first_subject tbl t = ''General''"
    by (intro Cons.IH) auto
  ultimately show ?case using e by simp
qed

lemma subject_matches_some:
  "subject_matches i topic \<longleftrightarrow> some_keyword (snd (subjectKeywords ! i)) (toLowerCase topic)"
  by (simp add: subject_matches_def some_keyword_iff)

text \<open>
  C5. \<^verbatim>\<open>determineSubject\<close> lowers the title and answers with the first subject of the
  table, in the order Physics, Biology, Mathematics, Chemistry, Computer Science,
  Economics, one of whose keywords is a substring of the lowered title. In particular a
  title that matches exactly one subject gets that subject, and a title that matches no
  subject gets ``General''.
\<close>

theorem determineSubject_first_match:
  "map fst subjectKeywords =
      [''Physics'', ''Biology'', ''Mathematics'', ''Chemistry'', ''Computer Science'', ''Economics'']
   \<and> (\<forall>i < length subjectKeywords.
         subject_matches i topic \<and> (\<forall>j < i. \<not> subject_matches j topic)
         \<longrightarrow> determineSubject topic = fst (subjectKeywords ! i))
   \<and> (\<forall>i < length subjectKeywords.
         subject_matches i topic \<and> (\<forall>j < length subjectKeywords. j \<noteq> i \<longrightarrow> \<not> subject_matches j topic)
         \<longrightarrow> determineSubject topic = fst (subjectKeywords ! i))
   \<and> ((\<forall>j < length subjectKeywords. \<not> subject_matches j topic)
         \<longrightarrow> determineSubject topic = ''General'')"
proof (intro conjI allI impI)
  show "map fst subjectKeywords =
      [''Physics'', ''Biology'', ''Mathematics'', ''Chemistry'', ''Computer Science'', ''Economics'']"
    by (simp add: subjectKeywords_def)
next
  fix i
  assume i: "i < length subjectKeywords"
    and m: "subject_matches i topic \<and> (\<forall>j < i. \<not> subject_matches j topic)"
  then show "determineSubject topic = fst (subjectKeywords ! i)"
    unfolding determineSubject_def
    by (intro first_subject_hit) (simp_all add: subject_matches_some)
next
  fix i
  assume i: "i < length subjectKeywords"
    and m: "subject_matches i topic
              \<and> (\<forall>j < length subjectKeywords. j \<noteq> i \<longrightarrow> \<not> subject_matches j topic)"
  then have "\<forall>j < i. \<not> subject_matches j topic" by auto
  with i m show "determineSubject topic = fst (subjectKeywords ! i)"
    unfolding determineSubject_def
    by (intro first_subject_hit) (simp_all add: subject_matches_some)
next
  assume "\<forall>j < length subjectKeywords. \<not> subject_matches j topic"
  then show "determineSubject topic = ''General''"
    unfolding determineSubject_def
    by (intro first_subject_miss) (simp add: subject_matches_some)
qed


theorem determineSubject_first_match_witness:
  "subject_matches 1 ''Cell Biology''
   \<and> \<not> subject_matches 0 ''Cell Biology''
   \<and> determineSubject ''Cell Biology'' = ''Biology''
   \<and> subject_matches 0 ''Quantum Mechanics and Calculus''
   \<and> subject_matches 2 ''Quantum Mechanics and Calculus''
   \<and> determineSubject ''Quantum Mechanics and Calculus'' = ''Physics''
   \<and> \<not> subject_matches 0 ''Machine Learning'' \<and> \<not> subject_matches 5 ''Machine Learning''
   \<and> determineSubject ''Machine Learning'' = ''General''"
proof -
  have len: "(1::nat) < length subjectKeywords" "(0::nat) < length subjectKeywords"
    by (simp_all add: subjectKeywords_def)
  have a1: "subject_matches 1 ''Cell Biology''" by code_simp
  have a2: "\<forall>j < length subjectKeywords. j \<noteq> 1 \<longrightarrow> \<not> subject_matches j ''Cell Biology''"
    by code_simp
  have b0: "subject_matches 0 ''Quantum Mechanics and Calculus''" by code_simp
  have b2: "subject_matches 2 ''Quantum Mechanics and Calculus''" by code_simp
  have c: "\<forall>j < length subjectKeywords. \<not> subject_matches j ''Machine Learning''"
    by code_simp
  have fst1: "fst (subjectKeywords ! 1) = ''Biology''" "fst (subjectKeywords ! 0) = ''Physics''"
    by (simp_all add: subjectKeywords_def)
  from determineSubject_first_match [of "''Cell Biology''"] len a1 a2 fst1
  have r1: "determineSubject ''Cell Biology'' = ''Biology''" by metis
  have b0': "\<forall>j < (0::nat). \<not> subject_matches j ''Quantum Mechanics and Calculus''" by simp
  from determineSubject_first_match [of "''Quantum Mechanics and Calculus''"] len(2) b0 b0' fst1(2)
  have r2: "determineSubject ''Quantum Mechanics and Calculus'' = ''Physics''" by metis
  from determineSubject_first_match [of "''Machine Learning''"] c
  have r3: "determineSubject ''Machine Learning'' = ''General''" by blast
  have l5: "(5::nat) < length subjectKeywords" by (simp add: subjectKeywords_def)
  from a2 len have a0: "\<not> subject_matches 0 ''Cell Biology''" by auto
  from c len l5 have c0: "\<not> subject_matches 0 ''Machine Learning''"
    and c5: "\<not> subject_matches 5 ''Machine Learning''" by auto
  from a1 a0 b0 b2 c0 c5 r1 r2 r3 show ?thesis by blast
qed

section \<open>Properties of the handlers\<close>

lemma startNewStudy_begin_no_user:
  "user c = None \<Longrightarrow> startNewStudy_begin t topic c s = (s, None)"
  by (simp add: startNewStudy_begin_def)

text \<open>
  C10. With no user (\<^verbatim>\<open>user\<close> is \<^verbatim>\<open>null\<close>), \<^verbatim>\<open>startNewStudy\<close> returns at once: it sends
  no request and the whole state (study groups, active study, messages, messages map,
  session map and the rest) is what it was.
\<close>

theorem startNewStudy_no_user:
  "user s = None \<Longrightarrow>
     startNewStudy_begin t0 topic s s = (s, None) \<and> startNewStudy t0 topic t outcome s = s"
  by (simp add: startNewStudy_def startNewStudy_begin_no_user)

theorem startNewStudy_no_user_witness:
  "user initialApp = None
   \<and> startNewStudy_begin 1000 ''Quantum Physics'' initialApp initialApp = (initialApp, None)
   \<and> startNewStudy 1000 ''Quantum Physics'' 1200 Failed initialApp = initialApp"
proof -
  have u: "user initialApp = None" by (simp add: initialApp_def)
  from u startNewStudy_no_user [OF u, of 1000 "''Quantum Physics''" 1200 Failed]
  show ?thesis by simp
qed

subsection \<open>The concrete session, evaluated\<close>

lemmas scenario_defs =
  quantum_typed_def quantum_started_def ada_logged_in_def intro_reply_def handleLogin_def
  initialApp_def typeText_def startNewStudy_def startNewStudy_begin_def startNewStudy_settle_def
  backend_settle_def backend_request_def sessionIdToUse_def saveCurrentMessages_def
  generateMessageId_def addToStudyGroups_def aiMessage_def Let_def

lemma quantum_active: "activeStudy quantum_typed = Some (newStudy 2000 ''Quantum Physics'')"
  by (simp add: scenario_defs)

lemma quantum_messages:
  "messages quantum_typed =
     [\<lparr>msg_id = message_id 2100 1, msg_type = ai_type, content = ''Let's begin...'', timestamp = 2100\<rparr>]"
  by (simp add: scenario_defs message_id_def)

lemma quantum_input:
  "inputValue quantum_typed = ''I think energy is quantized''"
  "\<not> trim_is_empty (inputValue quantum_typed)"
  by (simp_all add: scenario_defs ascii_space_def)

lemma quantum_groups: "studyGroups quantum_typed = [newGroup (newStudy 2000 ''Quantum Physics'')]"
  by (simp add: scenario_defs)

lemma quantum_flags:
  "isConnected quantum_typed = False" "messageIdRef quantum_typed = 1"
  "sessionIdMap quantum_typed = Map.empty"
  by (simp_all add: scenario_defs)

subsection \<open>\<^verbatim>\<open>sendMessage\<close>\<close>

lemma sendMessage_begin_sends:
  "snd (sendMessage_begin t c s) \<noteq> None
     \<longleftrightarrow> activeStudy c \<noteq> None \<and> \<not> trim_is_empty (inputValue c)"
  by (simp add: sendMessage_begin_def Let_def split: prod.splits)

lemma sendMessage_begin_active:
  assumes "activeStudy c = Some a" and "\<not> trim_is_empty (inputValue c)"
  shows "sendMessage_begin t c s =
           (s\<lparr>messageIdRef := messageIdRef s + 1,
              messages := messages s @
                [\<lparr>msg_id = message_id t (messageIdRef s + 1), msg_type = user_type,
                  content = inputValue c, timestamp = t\<rparr>],
              messagesMap := (messagesMap s)(study_id a \<mapsto> messages s @
                [\<lparr>msg_id = message_id t (messageIdRef s + 1), msg_type = user_type,
                  content = inputValue c, timestamp = t\<rparr>]),
              inputValue := [], isLoading := True\<rparr>,
            Some \<lparr>req_message = inputValue c, req_session_id = sessionIdToUse c False\<rparr>)"
  using assms
  by (simp add: sendMessage_begin_def generateMessageId_def appendMessage_def backend_request_def
      message_id_def Let_def)

lemma sendMessage_failed:
  assumes "activeStudy s = Some a" and "\<not> trim_is_empty (inputValue s)"
  shows "sendMessage t0 t Failed s =
           s\<lparr>messageIdRef := messageIdRef s + 2,
             messages := messages s @
               [\<lparr>msg_id = message_id t0 (messageIdRef s + 1), msg_type = user_type,
                 content = inputValue s, timestamp = t0\<rparr>,
                \<lparr>msg_id = message_id t (messageIdRef s + 2), msg_type = ai_type,
                 content = (if isConnected s then troubleText else offlineText), timestamp = t\<rparr>],
             messagesMap := (messagesMap s)(study_id a \<mapsto> messages s @
               [\<lparr>msg_id = message_id t0 (messageIdRef s + 1), msg_type = user_type,
                 content = inputValue s, timestamp = t0\<rparr>,
                \<lparr>msg_id = message_id t (messageIdRef s + 2), msg_type = ai_type,
                 content = (if isConnected s then troubleText else offlineText), timestamp = t\<rparr>]),
             inputValue := [], isLoading := False\<rparr>"
  using assms
  by (simp add: sendMessage_def sendMessage_begin_active sendMessage_settle_def backend_settle_def
      generateMessageId_def appendMessage_def aiMessage_def message_id_def Let_def)

lemma texts_differ: "troubleText \<noteq> offlineText"
  by (simp add: troubleText_def offlineText_def)

text \<open>
  C3. With an active study and a non-empty input for which \<^verbatim>\<open>sendMessage\<close> makes its
  exchange, a failed exchange leaves the user's message in place and puts exactly one
  fallback message of the assistant after it: two messages more than before the call,
  stored under the study as well. The fallback text is one of two distinct texts, chosen
  by the reachability flag \<^verbatim>\<open>isConnected\<close> as the handler saw it.
\<close>

theorem sendMessage_failure:
  assumes "activeStudy s = Some a" and "inputValue s \<noteq> []"
    and "snd (sendMessage_begin t0 s s) = Some req"
  shows "messages (sendMessage t0 t Failed s) =
           messages s @
             [\<lparr>msg_id = message_id t0 (messageIdRef s + 1), msg_type = user_type,
               content = inputValue s, timestamp = t0\<rparr>,
              \<lparr>msg_id = message_id t (messageIdRef s + 2), msg_type = ai_type,
               content = (if isConnected s then troubleText else offlineText), timestamp = t\<rparr>]
         \<and> length (messages (sendMessage t0 t Failed s)) = length (messages s) + 2
         \<and> messagesMap (sendMessage t0 t Failed s) (study_id a)
             = Some (messages (sendMessage t0 t Failed s))
         \<and> troubleText \<noteq> offlineText
         \<and> req = \<lparr>req_message = inputValue s, req_session_id = sessionIdToUse s False\<rparr>"
proof -
  from assms(3) have nb: "\<not> trim_is_empty (inputValue s)"
    using sendMessage_begin_sends [of t0 s s] by auto
  from assms(3) have "req = \<lparr>req_message = inputValue s, req_session_id = sessionIdToUse s False\<rparr>"
    by (simp add: sendMessage_begin_active [OF assms(1) nb])
  then show ?thesis
    by (simp add: sendMessage_failed [OF assms(1) nb] texts_differ)
qed

theorem sendMessage_failure_witness:
  "activeStudy quantum_typed = Some (newStudy 2000 ''Quantum Physics'')
   \<and> inputValue quantum_typed \<noteq> []
   \<and> snd (sendMessage_begin 3000 quantum_typed quantum_typed)
       = Some \<lparr>req_message = ''I think energy is quantized'', req_session_id = None\<rparr>
   \<and> messages (sendMessage 3000 3100 Failed quantum_typed) =
        [\<lparr>msg_id = message_id 2100 1, msg_type = ai_type, content = ''Let's begin...'', timestamp = 2100\<rparr>,
         \<lparr>msg_id = message_id 3000 2, msg_type = user_type,
           content = ''I think energy is quantized'', timestamp = 3000\<rparr>,
         \<lparr>msg_id = message_id 3100 3, msg_type = ai_type, content = offlineText, timestamp = 3100\<rparr>]
   \<and> length (messages (sendMessage 3000 3100 Failed quantum_typed)) = 3"
proof -
  have req: "snd (sendMessage_begin 3000 quantum_typed quantum_typed)
       = Some \<lparr>req_message = ''I think energy is quantized'', req_session_id = None\<rparr>"
    by (simp add: sendMessage_begin_active [OF quantum_active quantum_input(2)] quantum_input(1)
        sessionIdToUse_def quantum_active quantum_flags truthy_def)
  have ne: "inputValue quantum_typed \<noteq> []" by (simp add: quantum_input(1))
  from sendMessage_failure [OF quantum_active ne req, of 3100] req ne
  show ?thesis
    by (simp add: quantum_active quantum_messages quantum_flags quantum_input(1)
        numeral_2_eq_2 numeral_3_eq_3)
qed

lemma sendMessage_replied:
  assumes "activeStudy s = Some a" and "\<not> trim_is_empty (inputValue s)" and "phase d = None"
  shows "sendMessage t0 t (Replied d) s =
     s\<lparr>messageIdRef := messageIdRef s + (if truthy (response d) then 2 else 1),
       messages := messages s @
          \<lparr>msg_id = message_id t0 (messageIdRef s + 1), msg_type = user_type,
            content = inputValue s, timestamp = t0\<rparr> #
          (case response d of
             None \<Rightarrow> []
           | Some reply \<Rightarrow>
               if reply = [] then [] else [aiMessage (message_id t (messageIdRef s + 2)) reply t]),
       messagesMap := (messagesMap s)(study_id a \<mapsto> messages s @
          \<lparr>msg_id = message_id t0 (messageIdRef s + 1), msg_type = user_type,
            content = inputValue s, timestamp = t0\<rparr> #
          (case response d of
             None \<Rightarrow> []
           | Some reply \<Rightarrow>
               if reply = [] then [] else [aiMessage (message_id t (messageIdRef s + 2)) reply t])),
       sessionIdMap := (case session_id d of
                          None \<Rightarrow> sessionIdMap s
                        | Some sid \<Rightarrow>
                            if sid = [] then sessionIdMap s else (sessionIdMap s)(study_id a \<mapsto> sid)),
       inputValue := [], isLoading := False\<rparr>"
  using assms
  by (simp add: sendMessage_def sendMessage_begin_active sendMessage_settle_def backend_settle_def
      generateMessageId_def appendMessage_def message_id_def truthy_def Let_def
      split: option.splits)

text \<open>
  C9. A successful exchange of \<^verbatim>\<open>sendMessage\<close> whose reply has no \<^verbatim>\<open>phase\<close> field leaves
  the active study (progress, questions answered, last activity, subject, difficulty)
  and the study groups as they were. What changes is the message list, which gets the
  user's message and the reply (when the reply has a text), its copy in the messages
  map, and the session map when the reply carries a session id; the input box is
  cleared, the loading flag is off again and the id counter has advanced.
\<close>

theorem sendMessage_without_phase:
  assumes "activeStudy s = Some a" and "\<not> trim_is_empty (inputValue s)" and "phase d = None"
  shows "let s' = sendMessage t0 t (Replied d) s;
             userMessage = \<lparr>msg_id = message_id t0 (messageIdRef s + 1), msg_type = user_type,
                             content = inputValue s, timestamp = t0\<rparr>;
             reply = (case response d of
                        None \<Rightarrow> []
                      | Some r \<Rightarrow>
                          if r = [] then []
                          else [\<lparr>msg_id = message_id t (messageIdRef s + 2), msg_type = ai_type,
                                  content = r, timestamp = t\<rparr>])
         in activeStudy s' = Some a
          \<and> studyGroups s' = studyGroups s
          \<and> user s' = user s
          \<and> isConnected s' = isConnected s
          \<and> isInitializingStudy s' = isInitializingStudy s
          \<and> messages s' = messages s @ userMessage # reply
          \<and> messagesMap s' = (messagesMap s)(study_id a \<mapsto> messages s @ userMessage # reply)
          \<and> sessionIdMap s' =
                (case session_id d of
                   None \<Rightarrow> sessionIdMap s
                 | Some sid \<Rightarrow>
                     if sid = [] then sessionIdMap s else (sessionIdMap s)(study_id a \<mapsto> sid))
          \<and> messageIdRef s' = messageIdRef s + 1 + length reply
          \<and> inputValue s' = []
          \<and> isLoading s' = False"
  using assms(1)
  by (simp add: sendMessage_replied [OF assms] Let_def aiMessage_def truthy_def split: option.splits)

theorem sendMessage_without_phase_witness:
  "activeStudy quantum_typed = Some (newStudy 2000 ''Quantum Physics'')
   \<and> \<not> trim_is_empty (inputValue quantum_typed)
   \<and> phase plain_reply = None
   \<and> activeStudy (sendMessage 3000 3100 (Replied plain_reply) quantum_typed)
       = Some (newStudy 2000 ''Quantum Physics'')
   \<and> studyGroups (sendMessage 3000 3100 (Replied plain_reply) quantum_typed)
       = [newGroup (newStudy 2000 ''Quantum Physics'')]
   \<and> length (messages (sendMessage 3000 3100 (Replied plain_reply) quantum_typed)) = 3
   \<and> sessionIdMap (sendMessage 3000 3100 (Replied plain_reply) quantum_typed)
        (study_id (newStudy 2000 ''Quantum Physics'')) = Some ''s2''"
proof -
  have ph: "phase plain_reply = None" by (simp add: plain_reply_def)
  from sendMessage_without_phase [OF quantum_active quantum_input(2) ph, of 3000 3100]
  show ?thesis
    by (simp add: Let_def quantum_active quantum_input quantum_groups quantum_messages
        plain_reply_def ascii_space_def)
qed

lemma sendMessage_phase:
  assumes "activeStudy s = Some a" and "\<not> trim_is_empty (inputValue s)"
    and "response d = Some reply" and "reply \<noteq> []" and "phase d = Some ph" and "ph \<noteq> []"
  shows "activeStudy (sendMessage t0 t (Replied d) s) = Some (updatedStudy a t ph)"
    and "studyGroups (sendMessage t0 t (Replied d) s) =
           updateStudyGroups a (updatedStudy a t ph) (studyGroups s)"
  using assms
  by (simp_all add: sendMessage_def sendMessage_begin_active sendMessage_settle_def
      backend_settle_def generateMessageId_def appendMessage_def Let_def split: option.splits)

lemma sendMessage_empty_reply:
  assumes "activeStudy s = Some a" and "\<not> trim_is_empty (inputValue s)"
    and "response d = Some []"
  shows "activeStudy (sendMessage t0 t (Replied d) s) = Some a"
    and "studyGroups (sendMessage t0 t (Replied d) s) = studyGroups s"
  using assms
  by (simp_all add: sendMessage_def sendMessage_begin_active sendMessage_settle_def
      backend_settle_def Let_def split: option.splits)

lemma send_all_progress:
  assumes "activeStudy s = Some a" and "progress a \<le> 100"
    and "\<forall>x \<in> set xs. \<not> trim_is_empty (fst x) \<and> tutoring_reply (snd (snd (snd x)))"
  shows "sorted (map active_progress (s # send_all xs s))
         \<and> (\<forall>s' \<in> set (send_all xs s). active_progress s' \<le> 100)"
  using assms
proof (induction xs arbitrary: s a)
  case Nil
  then show ?case by simp
next
  case (Cons x xs)
  obtain inp t0 t outcome where x: "x = (inp, t0, t, outcome)" by (cases x)
  from Cons.prems(3) x have nb: "\<not> trim_is_empty inp" and tr: "tutoring_reply outcome" by auto
  from tr obtain d reply where d: "outcome = Replied d" "response d = Some reply" "reply \<noteq> []"
      "phase d = Some ''feynman_tutoring''"
    by (auto simp: tutoring_reply_def truthy_def split: Outcome.splits option.splits)
  define s' where "s' = sendMessage t0 t outcome (typeText inp s)"
  have act: "activeStudy (typeText inp s) = Some a" "\<not> trim_is_empty (inputValue (typeText inp s))"
    using Cons.prems(1) nb by (simp_all add: typeText_def)
  have a': "activeStudy s' = Some (updatedStudy a t ''feynman_tutoring'')"
    unfolding s'_def d(1) by (rule sendMessage_phase(1) [OF act d(2) d(3) d(4)]) simp
  have p': "progress (updatedStudy a t ''feynman_tutoring'') = min (progress a + 10) 100"
    by (simp add: updatedStudy_def)
  from Cons.prems(2) p' have le: "progress a \<le> progress (updatedStudy a t ''feynman_tutoring'')"
    and bound: "progress (updatedStudy a t ''feynman_tutoring'') \<le> 100" by simp_all
  from Cons.prems(3)
  have rest: "\<forall>x \<in> set xs. \<not> trim_is_empty (fst x) \<and> tutoring_reply (snd (snd (snd x)))"
    by simp
  from Cons.IH [OF a' bound rest]
  have ih: "sorted (map active_progress (s' # send_all xs s'))"
    "\<forall>s'' \<in> set (send_all xs s'). active_progress s'' \<le> 100" by simp_all
  have step: "active_progress s \<le> active_progress s'" "active_progress s' \<le> 100"
    using Cons.prems(1) a' le bound by (simp_all add: active_progress_def)
  have unf: "send_all (x # xs) s = s' # send_all xs s'"
    by (simp add: x s'_def Let_def)
  from ih step show ?case
    unfolding unf by (auto simp del: sorted_wrt.simps simp: sorted2)
qed

text \<open>
  C2, as the claim has it, fails: the progress update sits inside the branch
  \<^verbatim>\<open>if (response && response.response)\<close>, so a successful exchange whose reply reports the
  tutoring phase but has an empty text leaves the progress at \<open>0\<close> where the claim
  expects \<open>min (0 + 10) 100\<close>.
\<close>

theorem sendMessage_empty_reply_counterexample:
  "activeStudy quantum_typed = Some (newStudy 2000 ''Quantum Physics'')
   \<and> snd (sendMessage_begin 3000 quantum_typed quantum_typed) \<noteq> None
   \<and> phase empty_reply = Some ''feynman_tutoring''
   \<and> active_progress quantum_typed = 0
   \<and> active_progress (sendMessage 3000 3100 (Replied empty_reply) quantum_typed)
       \<noteq> min (active_progress quantum_typed + 10) 100
   \<and> activeStudy (sendMessage 3000 3100 (Replied empty_reply) quantum_typed)
       = activeStudy quantum_typed"
proof -
  have r: "response empty_reply = Some []" by (simp add: empty_reply_def)
  note act = sendMessage_empty_reply(1) [OF quantum_active quantum_input(2) r, of 3000 3100]
  have p0: "progress (newStudy 2000 ''Quantum Physics'') = 0" by (simp add: newStudy_def)
  have ph: "phase empty_reply = Some ''feynman_tutoring''" by (simp add: empty_reply_def)
  show ?thesis
    by (simp add: act ph quantum_active p0 active_progress_def
        sendMessage_begin_active [OF quantum_active quantum_input(2)])
qed

text \<open>
  C2, amended. For a successful exchange of \<^verbatim>\<open>sendMessage\<close> whose reply has a text and
  reports the phase \<^verbatim>\<open>feynman_tutoring\<close>: the active study becomes the study the handler
  saw with \<^verbatim>\<open>progress\<close> set to \<open>min (progress + 10) 100\<close>, \<^verbatim>\<open>questionsAnswered\<close> one
  higher and \<^verbatim>\<open>lastActive\<close> set to the time of the reply; in the study groups every
  study with its id is replaced by that same value and no other study changes. The new
  progress is at most \<open>100\<close>, and not below the old one when that was at most \<open>100\<close>;
  so along a run of such exchanges the progress of the active study never decreases
  and never exceeds \<open>100\<close>.
\<close>

theorem sendMessage_tutoring_progress:
  assumes "activeStudy s = Some a" and "\<not> trim_is_empty (inputValue s)"
    and "response d = Some reply" and "reply \<noteq> []" and "phase d = Some ''feynman_tutoring''"
  shows "let s' = sendMessage t0 t (Replied d) s;
             u = a\<lparr>lastActive := t, questionsAnswered := questionsAnswered a + 1,
                   progress := min (progress a + 10) 100\<rparr>
         in activeStudy s' = Some u
          \<and> studyGroups s' =
               map (\<lambda>g. g\<lparr>studies := map (\<lambda>st. if study_id st = study_id a then u else st) (studies g)\<rparr>)
                   (studyGroups s)
          \<and> (\<forall>g \<in> set (studyGroups s'). \<forall>st \<in> set (studies g). study_id st = study_id a \<longrightarrow> st = u)
          \<and> progress u \<le> 100
          \<and> (progress a \<le> 100 \<longrightarrow>
                progress a \<le> progress u
                \<and> (\<forall>xs. (\<forall>x \<in> set xs. \<not> trim_is_empty (fst x) \<and> tutoring_reply (snd (snd (snd x))))
                      \<longrightarrow> sorted (map active_progress (s # send_all xs s))
                          \<and> (\<forall>s'' \<in> set (send_all xs s). active_progress s'' \<le> 100)))"
proof -
  define u where "u = a\<lparr>lastActive := t, questionsAnswered := questionsAnswered a + 1,
                         progress := min (progress a + 10) 100\<rparr>"
  have u: "updatedStudy a t ''feynman_tutoring'' = u"
    by (simp add: updatedStudy_def u_def)
  have ne: "''feynman_tutoring'' \<noteq> []" by simp
  note ph = sendMessage_phase [OF assms(1-5) ne, of t0 t, unfolded u]
  have groups: "studyGroups (sendMessage t0 t (Replied d) s) =
      map (\<lambda>g. g\<lparr>studies := map (\<lambda>st. if study_id st = study_id a then u else st) (studies g)\<rparr>)
          (studyGroups s)"
    by (simp add: ph(2) updateStudyGroups_def)
  have copies: "\<forall>g \<in> set (studyGroups (sendMessage t0 t (Replied d) s)).
                  \<forall>st \<in> set (studies g). study_id st = study_id a \<longrightarrow> st = u"
    unfolding groups by (auto simp: u_def)
  have bound: "progress u \<le> 100" by (simp add: u_def)
  have mono: "progress a \<le> 100 \<Longrightarrow> progress a \<le> progress u" by (simp add: u_def)
  have run: "progress a \<le> 100 \<Longrightarrow>
      \<forall>x \<in> set xs. \<not> trim_is_empty (fst x) \<and> tutoring_reply (snd (snd (snd x))) \<Longrightarrow>
      sorted (map active_progress (s # send_all xs s))
      \<and> (\<forall>s'' \<in> set (send_all xs s). active_progress s'' \<le> 100)" for xs
    by (rule send_all_progress [OF assms(1)])
  from ph(1) groups copies bound mono run show ?thesis
    unfolding Let_def u_def [symmetric] by blast
qed

theorem sendMessage_tutoring_progress_witness:
  "activeStudy quantum_typed = Some (newStudy 2000 ''Quantum Physics'')
   \<and> \<not> trim_is_empty (inputValue quantum_typed)
   \<and> response good_reply = Some ''Good!''
   \<and> phase good_reply = Some ''feynman_tutoring''
   \<and> activeStudy (sendMessage 3000 3100 (Replied good_reply) quantum_typed)
       = Some ((newStudy 2000 ''Quantum Physics'')
                 \<lparr>lastActive := 3100, questionsAnswered := 1, progress := 10\<rparr>)
   \<and> map studies (studyGroups (sendMessage 3000 3100 (Replied good_reply) quantum_typed))
       = [[(newStudy 2000 ''Quantum Physics'')
             \<lparr>lastActive := 3100, questionsAnswered := 1, progress := 10\<rparr>]]
   \<and> sorted (map active_progress (quantum_typed # send_all two_exchanges quantum_typed))
   \<and> list_all (\<lambda>s. active_progress s \<le> 100) (send_all two_exchanges quantum_typed)"
proof -
  have d: "response good_reply = Some ''Good!''" "''Good!'' \<noteq> []"
    "phase good_reply = Some ''feynman_tutoring''"
    by (simp_all add: good_reply_def)
  have p0: "progress (newStudy 2000 ''Quantum Physics'') = 0"
    "questionsAnswered (newStudy 2000 ''Quantum Physics'') = 0"
    "progress (newStudy 2000 ''Quantum Physics'') \<le> 100"
    by (simp_all add: newStudy_def)
  have good: "\<forall>x \<in> set two_exchanges.
                \<not> trim_is_empty (fst x) \<and> tutoring_reply (snd (snd (snd x)))"
    by (simp add: two_exchanges_def tutoring_reply_def truthy_def good_reply_def ascii_space_def)
  note T = sendMessage_tutoring_progress [OF quantum_active quantum_input(2) d, of 3000 3100,
      unfolded Let_def]
  note T1 = T [THEN conjunct1]
  note T2 = T [THEN conjunct2, THEN conjunct1]
  note T5 = T [THEN conjunct2, THEN conjunct2, THEN conjunct2, THEN conjunct2, THEN mp,
      OF p0(3), THEN conjunct2, THEN spec, of two_exchanges, THEN mp, OF good]
  have a: "activeStudy (sendMessage 3000 3100 (Replied good_reply) quantum_typed)
       = Some ((newStudy 2000 ''Quantum Physics'')
                 \<lparr>lastActive := 3100, questionsAnswered := 1, progress := 10\<rparr>)"
    unfolding T1 by (simp add: p0)
  have g: "map studies (studyGroups (sendMessage 3000 3100 (Replied good_reply) quantum_typed))
       = [[(newStudy 2000 ''Quantum Physics'')
             \<lparr>lastActive := 3100, questionsAnswered := 1, progress := 10\<rparr>]]"
    unfolding T2 by (simp add: p0 quantum_groups newGroup_def)
  from T5 have r: "sorted (map active_progress (quantum_typed # send_all two_exchanges quantum_typed))"
    by (rule conjunct1)
  from T5 have r': "list_all (\<lambda>s. active_progress s \<le> 100) (send_all two_exchanges quantum_typed)"
    unfolding list_all_iff by (rule conjunct2)
  from a g r r' quantum_active quantum_input(2) d(1,3) show ?thesis
    by (intro conjI)
qed

subsection \<open>\<^verbatim>\<open>startNewStudy\<close>\<close>

lemma startNewStudy_begin_user:
  assumes "user c = Some u"
  shows "startNewStudy_begin t topic c s =
           ((saveCurrentMessages c
               (s\<lparr>studyGroups := addToStudyGroups (newStudy t topic) (studyGroups s)\<rparr>))
              \<lparr>activeStudy := Some (newStudy t topic), messages := [], isLoading := True\<rparr>,
            Some \<lparr>req_message = ''I want to learn about '' @ topic, req_session_id = None\<rparr>)"
  using assms
  by (simp add: startNewStudy_begin_def backend_request_def sessionIdToUse_def Let_def
      split: option.splits)

lemma startNewStudy_failed:
  assumes "user s = Some u"
  shows "startNewStudy t0 topic t Failed s =
           (saveCurrentMessages s s)
             \<lparr>studyGroups := addToStudyGroups (newStudy t0 topic) (studyGroups s),
              activeStudy := Some (newStudy t0 topic),
              messages := [aiMessage (message_id t (messageIdRef s + 1)) (startFallback topic) t],
              messagesMap := (messagesMap (saveCurrentMessages s s))
                 (study_id (newStudy t0 topic) \<mapsto>
                    [aiMessage (message_id t (messageIdRef s + 1)) (startFallback topic) t]),
              messageIdRef := messageIdRef s + 1,
              isLoading := False\<rparr>"
  using assms
  by (simp add: startNewStudy_def startNewStudy_begin_user startNewStudy_settle_def
      backend_settle_def generateMessageId_def saveCurrentMessages_def message_id_def Let_def
      split: option.splits)

lemma saveCurrentMessages_fields:
  "sessionIdMap (saveCurrentMessages c s) = sessionIdMap s"
  "activeStudy (saveCurrentMessages c s) = activeStudy s"
  "messages (saveCurrentMessages c s) = messages s"
  "studyGroups (saveCurrentMessages c s) = studyGroups s"
  "user (saveCurrentMessages c s) = user s"
  "isLoading (saveCurrentMessages c s) = isLoading s"
  "isInitializingStudy (saveCurrentMessages c s) = isInitializingStudy s"
  "inputValue (saveCurrentMessages c s) = inputValue s"
  "messagesMap (saveCurrentMessages c s) =
     (case activeStudy c of None \<Rightarrow> messagesMap s | Some a \<Rightarrow> (messagesMap s)(study_id a \<mapsto> messages c))"
  by (simp_all add: saveCurrentMessages_def split: option.splits)

text \<open>
  C7. When the first exchange of \<^verbatim>\<open>startNewStudy\<close> fails, the message list is exactly
  one message of the assistant with the fixed fallback text around the title (also stored
  under the new study), the new study is the active study, its entry in the study groups
  is the one made at the start, and the session map is what it was before the call. So,
  the id of the new study having no session before, the next \<^verbatim>\<open>sendMessage\<close> sends
  \<^verbatim>\<open>session_id: null\<close>.
\<close>

theorem startNewStudy_failure:
  assumes "user s = Some u"
  shows "let s' = startNewStudy t0 topic t Failed s; st = newStudy t0 topic
         in snd (startNewStudy_begin t0 topic s s)
              = Some \<lparr>req_message = ''I want to learn about '' @ topic, req_session_id = None\<rparr>
          \<and> messages s' =
               [\<lparr>msg_id = message_id t (messageIdRef s + 1), msg_type = ai_type,
                 content = ''Great! Let's start learning about \"'' @ topic @
                   ''\". I'll use the Feynman Technique to help you master this concept. Can you begin by explaining what you already know about this topic in simple terms?'',
                 timestamp = t\<rparr>]
          \<and> messagesMap s' (study_id st) = Some (messages s')
          \<and> activeStudy s' = Some st
          \<and> studyGroups s' = addToStudyGroups st (studyGroups s)
          \<and> sessionIdMap s' = sessionIdMap s
          \<and> (sessionIdMap s (study_id st) = None \<longrightarrow>
                (\<forall>v t1. \<not> trim_is_empty v \<longrightarrow>
                   snd (sendMessage_begin t1 (typeText v s') (typeText v s'))
                     = Some \<lparr>req_message = v, req_session_id = None\<rparr>))"
proof -
  define s' where "s' = startNewStudy t0 topic t Failed s"
  note eq = startNewStudy_failed [OF assms, of t0 topic t, folded s'_def]
  have act: "activeStudy s' = Some (newStudy t0 topic)" by (simp add: eq)
  have ses: "sessionIdMap s' = sessionIdMap s" by (simp add: eq saveCurrentMessages_fields)
  have msgs: "messages s' =
               [\<lparr>msg_id = message_id t (messageIdRef s + 1), msg_type = ai_type,
                 content = ''Great! Let's start learning about \"'' @ topic @
                   ''\". I'll use the Feynman Technique to help you master this concept. Can you begin by explaining what you already know about this topic in simple terms?'',
                 timestamp = t\<rparr>]"
    by (simp add: eq aiMessage_def startFallback_def)
  have stored: "messagesMap s' (study_id (newStudy t0 topic)) = Some (messages s')"
    by (simp add: eq)
  have groups: "studyGroups s' = addToStudyGroups (newStudy t0 topic) (studyGroups s)"
    by (simp add: eq)
  have next_send: "snd (sendMessage_begin t1 (typeText v s') (typeText v s'))
                     = Some \<lparr>req_message = v, req_session_id = None\<rparr>"
    if "sessionIdMap s (study_id (newStudy t0 topic)) = None" and "\<not> trim_is_empty v" for v t1
  proof -
    have a: "activeStudy (typeText v s') = Some (newStudy t0 topic)"
      and i: "\<not> trim_is_empty (inputValue (typeText v s'))"
      using act that(2) by (simp_all add: typeText_def)
    have m: "sessionIdMap (typeText v s') = sessionIdMap s" "inputValue (typeText v s') = v"
      using ses by (simp_all add: typeText_def)
    show ?thesis
      using that(1)
      by (simp add: sendMessage_begin_active [OF a i] sessionIdToUse_def a m truthy_def)
  qed
  from act ses msgs stored groups next_send startNewStudy_begin_user [OF assms, of t0 topic s]
  show ?thesis
    unfolding Let_def s'_def [symmetric] by simp
qed

lemma ada_user: "user ada_logged_in = Some \<lparr>user_id = show_nat 1000, user_name = ''Ada'',
    email = ''ada@example.org'',
    avatar = Some ''https://api.dicebear.com/7.x/avataaars/svg?seed=Ada''\<rparr>"
  by (simp add: ada_logged_in_def handleLogin_def)

lemma ada_fields:
  "sessionIdMap ada_logged_in = Map.empty" "messageIdRef ada_logged_in = 0"
  "studyGroups ada_logged_in = []" "activeStudy ada_logged_in = None"
  "messagesMap ada_logged_in = Map.empty" "messages ada_logged_in = []"
  by (simp_all add: ada_logged_in_def handleLogin_def initialApp_def)

theorem startNewStudy_failure_witness:
  "user ada_logged_in \<noteq> None
   \<and> messages (startNewStudy 2000 ''Quantum Physics'' 2100 Failed ada_logged_in) =
        [\<lparr>msg_id = message_id 2100 1, msg_type = ai_type,
          content = ''Great! Let's start learning about \"Quantum Physics\". I'll use the Feynman Technique to help you master this concept. Can you begin by explaining what you already know about this topic in simple terms?'',
          timestamp = 2100\<rparr>]
   \<and> activeStudy (startNewStudy 2000 ''Quantum Physics'' 2100 Failed ada_logged_in)
       = Some (newStudy 2000 ''Quantum Physics'')
   \<and> sessionIdMap (startNewStudy 2000 ''Quantum Physics'' 2100 Failed ada_logged_in) = Map.empty
   \<and> snd (sendMessage_begin 3000
        (typeText ''Energy'' (startNewStudy 2000 ''Quantum Physics'' 2100 Failed ada_logged_in))
        (typeText ''Energy'' (startNewStudy 2000 ''Quantum Physics'' 2100 Failed ada_logged_in)))
       = Some \<lparr>req_message = ''Energy'', req_session_id = None\<rparr>"
proof -
  note T = startNewStudy_failure [OF ada_user, of 2000 "''Quantum Physics''" 2100,
      unfolded Let_def ada_fields]
  have nb: "\<not> trim_is_empty ''Energy''" by (simp add: ascii_space_def)
  have fresh: "Map.empty (study_id (newStudy 2000 ''Quantum Physics'')) = (None :: string option)"
    by simp
  note T2 = T [THEN conjunct2, THEN conjunct1]
  note T4 = T [THEN conjunct2, THEN conjunct2, THEN conjunct2, THEN conjunct1]
  note T6 = T [THEN conjunct2, THEN conjunct2, THEN conjunct2, THEN conjunct2, THEN conjunct2,
      THEN conjunct1]
  note T7 = T [THEN conjunct2, THEN conjunct2, THEN conjunct2, THEN conjunct2, THEN conjunct2,
      THEN conjunct2, THEN mp, OF fresh, THEN spec, of "''Energy''", THEN spec, of 3000,
      THEN mp, OF nb]
  have u: "user ada_logged_in \<noteq> None" by (simp add: ada_user)
  from T2 have m: "messages (startNewStudy 2000 ''Quantum Physics'' 2100 Failed ada_logged_in) =
        [\<lparr>msg_id = message_id 2100 1, msg_type = ai_type,
          content = ''Great! Let's start learning about \"Quantum Physics\". I'll use the Feynman Technique to help you master this concept. Can you begin by explaining what you already know about this topic in simple terms?'',
          timestamp = 2100\<rparr>]"
    by simp
  from u m T4 T6 T7 show ?thesis by (intro conjI)
qed

subsection \<open>\<^verbatim>\<open>switchToStudy\<close>\<close>

lemma switchToStudy_fields:
  "activeStudy (fst (switchToStudy study c s)) = Some study"
  "messages (fst (switchToStudy study c s)) =
     (case messagesMap c (study_id study) of None \<Rightarrow> [] | Some ms \<Rightarrow> ms)"
  "messagesMap (fst (switchToStudy study c s)) =
     (case activeStudy c of None \<Rightarrow> messagesMap s | Some a \<Rightarrow> (messagesMap s)(study_id a \<mapsto> messages c))"
  "sessionIdMap (fst (switchToStudy study c s)) = sessionIdMap s"
  "studyGroups (fst (switchToStudy study c s)) = studyGroups s"
  by (simp_all add: switchToStudy_def continueStudySession_begin_def saveCurrentMessages_def Let_def
      split: option.splits)

lemma switchToStudy_request:
  "snd (switchToStudy study c s) =
     (if needsSession c study
      then Some \<lparr>req_message = ''I want to continue learning about '' @ title study,
                 req_session_id = None\<rparr>
      else None)"
  by (simp add: switchToStudy_def continueStudySession_begin_def backend_request_def
      sessionIdToUse_def Let_def split: option.splits)

lemma switchToStudy_flags:
  "isInitializingStudy (fst (switchToStudy study c s)) = (needsSession c study \<or> isInitializingStudy s)"
  "isLoading (fst (switchToStudy study c s)) = (needsSession c study \<or> isLoading s)"
  by (auto simp: switchToStudy_def continueStudySession_begin_def saveCurrentMessages_def Let_def
      split: option.splits)

text \<open>
  When a switch starts a session: exactly when the map of session ids has no (non-empty)
  id for the study and the map of messages has an entry for it that is the empty list.
\<close>

lemma needsSession_iff:
  "needsSession c study \<longleftrightarrow>
     (sessionIdMap c (study_id study) = None \<or> sessionIdMap c (study_id study) = Some [])
     \<and> messagesMap c (study_id study) = Some []"
  by (auto simp: needsSession_def truthy_def split: option.splits)

text \<open>
  C1. Clicking study \<open>A\<close>, then \<open>B\<close>, then \<open>A\<close> again shows the messages that \<open>A\<close> showed
  after the first click, whatever the state before and whatever \<open>B\<close> is; the second click
  stores these messages under the id of \<open>A\<close>. In a state where \<open>A\<close> is active with
  messages \<open>M\<close>, switching to \<open>B\<close> stores \<open>M\<close> under the id of \<open>A\<close> and switching back
  shows exactly \<open>M\<close> again, with \<open>A\<close> active.
\<close>

theorem switch_round_trip:
  "(let s1 = fst (onStudyClick A s0);
        s2 = fst (onStudyClick B s1);
        s3 = fst (onStudyClick A s2)
    in messages s3 = messages s1 \<and> activeStudy s1 = Some A \<and> activeStudy s3 = Some A
       \<and> messagesMap s2 (study_id A) = Some (messages s1))
   \<and> (activeStudy s = Some A' \<and> study_id A' = study_id A \<and> messages s = M \<longrightarrow>
        (let s1 = fst (onStudyClick B s);
             s2 = fst (onStudyClick A s1)
         in messagesMap s1 (study_id A) = Some M \<and> activeStudy s1 = Some B
            \<and> messages s2 = M \<and> activeStudy s2 = Some A))"
  by (simp add: onStudyClick_def switchToStudy_fields Let_def)

theorem switch_round_trip_witness:
  "activeStudy quantum_started = Some (newStudy 2000 ''Quantum Physics'')
   \<and> messages quantum_started =
       [\<lparr>msg_id = message_id 2100 1, msg_type = ai_type, content = ''Let's begin...'', timestamp = 2100\<rparr>]
   \<and> messages (fst (onStudyClick (newStudy 2000 ''Quantum Physics'')
                  (fst (onStudyClick (newStudy 5000 ''Calculus'') quantum_started))))
       = [\<lparr>msg_id = message_id 2100 1, msg_type = ai_type, content = ''Let's begin...'', timestamp = 2100\<rparr>]
   \<and> messages (fst (onStudyClick (newStudy 5000 ''Calculus'') quantum_started)) = []"
proof -
  have a: "activeStudy quantum_started = Some (newStudy 2000 ''Quantum Physics'')"
    using quantum_active by (simp add: quantum_typed_def typeText_def)
  have m: "messages quantum_started =
       [\<lparr>msg_id = message_id 2100 1, msg_type = ai_type, content = ''Let's begin...'', timestamp = 2100\<rparr>]"
    using quantum_messages by (simp add: quantum_typed_def typeText_def)
  have ids: "show_nat 5000 \<noteq> show_nat 2000" by (simp add: show_nat.simps)
  have e: "messages (fst (onStudyClick (newStudy 5000 ''Calculus'') quantum_started)) = []"
    by (simp add: onStudyClick_def switchToStudy_fields scenario_defs newStudy_def ids)
  note T = switch_round_trip [where s = quantum_started and A = "newStudy 2000 ''Quantum Physics''"
      and A' = "newStudy 2000 ''Quantum Physics''" and B = "newStudy 5000 ''Calculus''",
      THEN conjunct2,
      unfolded Let_def, THEN mp, OF conjI [OF a conjI [OF refl m]],
      THEN conjunct2, THEN conjunct2, THEN conjunct1]
  from a m T e show ?thesis by (intro conjI)
qed

text \<open>
  A reply to the session start of \<open>B\<close> that arrives between the two switches does not
  disturb the round trip, as long as \<open>B\<close> has another id than \<open>A\<close>.
\<close>

lemma switch_back_after_reply:
  assumes "activeStudy s = Some A" and "study_id B \<noteq> study_id A"
  shows "messages (fst (onStudyClick A
            (continueStudySession_settle B s t outcome (fst (onStudyClick B s))))) = messages s"
proof -
  define s1 where "s1 = fst (onStudyClick B s)"
  have m1: "messagesMap s1 (study_id A) = Some (messages s)"
    using assms(1) by (simp add: s1_def onStudyClick_def switchToStudy_fields)
  have "messagesMap (continueStudySession_settle B s t outcome s1) (study_id A)
          = messagesMap s1 (study_id A)"
    using assms(2)
    by (simp add: continueStudySession_settle_def backend_settle_def generateMessageId_def Let_def
        split: Outcome.splits option.splits prod.splits)
  with m1 show ?thesis
    by (simp add: onStudyClick_def switchToStudy_fields s1_def)
qed

text \<open>
  A reply to a session start sets the shown message list whichever study is active when
  it arrives; the round trip above speaks of the state right after the switches.
\<close>

lemma late_reply_overwrites:
  assumes "response d = Some r" and "r \<noteq> []"
  shows "messages (continueStudySession_settle B c t (Replied d) s)
           = [aiMessage (message_id t (messageIdRef s + 1)) r t]"
  using assms
  by (simp add: continueStudySession_settle_def backend_settle_def generateMessageId_def
      message_id_def Let_def split: option.splits prod.splits)

text \<open>
  C4, the code at the input where it leaves the claim: after a start whose reply had
  an empty text, the study ``Quantum Physics'' is active with no session id, no entry
  in the messages map and no exchange under way, yet a click on it starts no session
  (the length of a missing entry is not \<open>0\<close>). The click stores the empty list
  under the study, so a second click does start one, with \<^verbatim>\<open>session_id: null\<close> and the
  seed text of \<^verbatim>\<open>continueStudySession\<close>.
\<close>

theorem switchToStudy_missing_entry:
  "activeStudy quantum_silent = Some (newStudy 2000 ''Quantum Physics'')
   \<and> sessionIdMap quantum_silent (study_id (newStudy 2000 ''Quantum Physics'')) = None
   \<and> messagesMap quantum_silent (study_id (newStudy 2000 ''Quantum Physics'')) = None
   \<and> messages quantum_silent = []
   \<and> \<not> isLoading quantum_silent \<and> \<not> isInitializingStudy quantum_silent
   \<and> snd (onStudyClick (newStudy 2000 ''Quantum Physics'') quantum_silent) = None
   \<and> snd (onStudyClick (newStudy 2000 ''Quantum Physics'')
            (fst (onStudyClick (newStudy 2000 ''Quantum Physics'') quantum_silent)))
       = Some \<lparr>req_message = ''I want to continue learning about Quantum Physics'',
               req_session_id = None\<rparr>"
proof -
  have s: "activeStudy quantum_silent = Some (newStudy 2000 ''Quantum Physics'')"
    "sessionIdMap quantum_silent = Map.empty" "messagesMap quantum_silent = Map.empty"
    "messages quantum_silent = []" "\<not> isLoading quantum_silent"
    "\<not> isInitializingStudy quantum_silent"
    by (simp_all add: quantum_silent_def silent_reply_def ada_logged_in_def handleLogin_def
        initialApp_def startNewStudy_def startNewStudy_begin_def startNewStudy_settle_def
        backend_settle_def backend_request_def saveCurrentMessages_def Let_def)
  have n1: "\<not> needsSession quantum_silent (newStudy 2000 ''Quantum Physics'')"
    by (simp add: needsSession_iff s)
  have n2: "needsSession (fst (onStudyClick (newStudy 2000 ''Quantum Physics'') quantum_silent))
              (newStudy 2000 ''Quantum Physics'')"
    by (simp add: needsSession_iff onStudyClick_def switchToStudy_fields s)
  have t: "title (newStudy 2000 ''Quantum Physics'') = ''Quantum Physics''"
    by (simp add: newStudy_def)
  from s n1 n2 t show ?thesis
    by (simp add: onStudyClick_def switchToStudy_request)
qed

subsection \<open>Exchanges under way\<close>

lemma ada_flags:
  "\<not> isLoading ada_logged_in" "\<not> isInitializingStudy ada_logged_in"
  by (simp_all add: ada_logged_in_def handleLogin_def initialApp_def)

lemma quantum_pending_fields:
  "activeStudy quantum_pending = Some (newStudy 2000 ''Quantum Physics'')"
  "messages quantum_pending = []" "messagesMap quantum_pending = Map.empty"
  "sessionIdMap quantum_pending = Map.empty" "isLoading quantum_pending"
  "\<not> isInitializingStudy quantum_pending"
  by (simp_all add: quantum_pending_def startNewStudy_begin_user [OF ada_user] ada_fields
      ada_flags saveCurrentMessages_def)

lemma quantum_clicked_fields:
  "activeStudy quantum_clicked = Some (newStudy 2000 ''Quantum Physics'')"
  "messagesMap quantum_clicked (study_id (newStudy 2000 ''Quantum Physics'')) = Some []"
  "messages quantum_clicked = []"
  "sessionIdMap quantum_clicked = Map.empty" "isLoading quantum_clicked"
  "\<not> isInitializingStudy quantum_clicked"
  "snd (onStudyClick (newStudy 2000 ''Quantum Physics'') quantum_pending) = None"
  by (simp_all add: quantum_clicked_def onStudyClick_def switchToStudy_fields switchToStudy_flags
      switchToStudy_request needsSession_iff quantum_pending_fields)

lemma quantum_initializing_fields:
  "activeStudy quantum_initializing = Some (newStudy 2000 ''Quantum Physics'')"
  "messagesMap quantum_initializing (study_id (newStudy 2000 ''Quantum Physics'')) = Some []"
  "sessionIdMap quantum_initializing = Map.empty" "isLoading quantum_initializing"
  "isInitializingStudy quantum_initializing"
  by (simp_all add: quantum_initializing_def onStudyClick_def switchToStudy_fields
      switchToStudy_flags needsSession_iff quantum_clicked_fields)

text \<open>
  C8, as the claim has it, fails. While the first exchange of the study ``Quantum
  Physics'' is under way (the loading flag is set), a second click on its row in the
  side bar sends a request of \<^verbatim>\<open>continueStudySession\<close> for the same study; with the
  Initializing flag now set as well, a further click sends another one, and so does a
  direct call of \<^verbatim>\<open>continueStudySession\<close> or of \<^verbatim>\<open>sendMessage\<close>: neither function tests
  a flag.
\<close>

theorem reentrant_request_counterexample:
  "isLoading quantum_clicked
   \<and> activeStudy quantum_clicked = Some (newStudy 2000 ''Quantum Physics'')
   \<and> snd (onStudyClick (newStudy 2000 ''Quantum Physics'') quantum_clicked)
       = Some \<lparr>req_message = ''I want to continue learning about Quantum Physics'',
               req_session_id = None\<rparr>
   \<and> isLoading quantum_initializing \<and> isInitializingStudy quantum_initializing
   \<and> activeStudy quantum_initializing = Some (newStudy 2000 ''Quantum Physics'')
   \<and> snd (onStudyClick (newStudy 2000 ''Quantum Physics'') quantum_initializing)
       = Some \<lparr>req_message = ''I want to continue learning about Quantum Physics'',
               req_session_id = None\<rparr>
   \<and> snd (continueStudySession_begin (newStudy 2000 ''Quantum Physics'')
            quantum_initializing quantum_initializing)
       = Some \<lparr>req_message = ''I want to continue learning about Quantum Physics'',
               req_session_id = None\<rparr>
   \<and> snd (sendMessage_begin 2500 (typeText ''hi'' quantum_initializing)
            (typeText ''hi'' quantum_initializing))
       = Some \<lparr>req_message = ''hi'', req_session_id = None\<rparr>"
proof -
  have t: "title (newStudy 2000 ''Quantum Physics'') = ''Quantum Physics''"
    by (simp add: newStudy_def)
  have n1: "needsSession quantum_clicked (newStudy 2000 ''Quantum Physics'')"
    by (simp add: needsSession_iff quantum_clicked_fields)
  have n2: "needsSession quantum_initializing (newStudy 2000 ''Quantum Physics'')"
    by (simp add: needsSession_iff quantum_initializing_fields)
  have c: "snd (continueStudySession_begin (newStudy 2000 ''Quantum Physics'')
            quantum_initializing quantum_initializing)
       = Some \<lparr>req_message = ''I want to continue learning about Quantum Physics'',
               req_session_id = None\<rparr>"
    by (simp add: continueStudySession_begin_def n2 backend_request_def sessionIdToUse_def t
        quantum_initializing_fields)
  have a: "activeStudy (typeText ''hi'' quantum_initializing) = Some (newStudy 2000 ''Quantum Physics'')"
    and i: "\<not> trim_is_empty (inputValue (typeText ''hi'' quantum_initializing))"
    and m: "sessionIdMap (typeText ''hi'' quantum_initializing) = Map.empty"
      "inputValue (typeText ''hi'' quantum_initializing) = ''hi''"
    by (simp_all add: typeText_def quantum_initializing_fields ascii_space_def)
  have s: "snd (sendMessage_begin 2500 (typeText ''hi'' quantum_initializing)
            (typeText ''hi'' quantum_initializing))
       = Some \<lparr>req_message = ''hi'', req_session_id = None\<rparr>"
    by (simp add: sendMessage_begin_active [OF a i] sessionIdToUse_def a m truthy_def)
  from n1 n2 c s t show ?thesis
    by (simp add: onStudyClick_def switchToStudy_request quantum_clicked_fields
        quantum_initializing_fields)
qed

text \<open>
  C8, amended. The gate is in the view. While the loading flag or the Initializing flag
  is set in the rendered state, neither a key press in the chat input nor a click on the
  send button calls \<^verbatim>\<open>sendMessage\<close> or \<^verbatim>\<open>startNewStudy\<close>: no request is sent and the
  state stays as it is. A submit that is let through (no flag set, a study active, the
  input not blank) is the call of \<^verbatim>\<open>sendMessage\<close>; it sends its request, sets the loading
  flag and clears the input, so that a second submit through the input right after it
  sends nothing.
\<close>

theorem input_gate:
  "(isLoading s \<or> isInitializingStudy s \<longrightarrow>
      onKeyPress key t s = (s, None) \<and> onSendClick t s = (s, None))
   \<and> (\<not> isLoading s \<and> \<not> isInitializingStudy s \<and> activeStudy s = Some a
        \<and> \<not> trim_is_empty (inputValue s) \<longrightarrow>
        onKeyPress ''Enter'' t s = sendMessage_begin t s s
        \<and> onSendClick t s = sendMessage_begin t s s
        \<and> snd (sendMessage_begin t s s) \<noteq> None
        \<and> isLoading (fst (sendMessage_begin t s s))
        \<and> inputValue (fst (sendMessage_begin t s s)) = []
        \<and> onKeyPress key t' (fst (sendMessage_begin t s s)) = (fst (sendMessage_begin t s s), None)
        \<and> onSendClick t' (fst (sendMessage_begin t s s)) = (fst (sendMessage_begin t s s), None))"
proof (intro conjI impI)
  assume "isLoading s \<or> isInitializingStudy s"
  then show "onKeyPress key t s = (s, None)" "onSendClick t s = (s, None)"
    by (auto simp: onKeyPress_def onSendClick_def)
next
  assume h: "\<not> isLoading s \<and> \<not> isInitializingStudy s \<and> activeStudy s = Some a
        \<and> \<not> trim_is_empty (inputValue s)"
  then have a: "activeStudy s = Some a" and i: "\<not> trim_is_empty (inputValue s)" by simp_all
  note b = sendMessage_begin_active [OF a i, of t s]
  from h show "onKeyPress ''Enter'' t s = sendMessage_begin t s s"
    by (simp add: onKeyPress_def)
  from h show "onSendClick t s = sendMessage_begin t s s"
    by (simp add: onSendClick_def)
  show "snd (sendMessage_begin t s s) \<noteq> None" by (simp add: b)
  show l: "isLoading (fst (sendMessage_begin t s s))" by (simp add: b)
  show "inputValue (fst (sendMessage_begin t s s)) = []" by (simp add: b)
  from l show "onKeyPress key t' (fst (sendMessage_begin t s s)) = (fst (sendMessage_begin t s s), None)"
    by (simp add: onKeyPress_def)
  from l show "onSendClick t' (fst (sendMessage_begin t s s)) = (fst (sendMessage_begin t s s), None)"
    by (simp add: onSendClick_def)
qed

theorem input_gate_witness:
  "isLoading (typeText ''hi'' quantum_initializing)
   \<and> onKeyPress ''Enter'' 2500 (typeText ''hi'' quantum_initializing)
       = (typeText ''hi'' quantum_initializing, None)
   \<and> onSendClick 2500 (typeText ''hi'' quantum_initializing)
       = (typeText ''hi'' quantum_initializing, None)
   \<and> \<not> isLoading quantum_typed \<and> \<not> isInitializingStudy quantum_typed
   \<and> snd (onKeyPress ''Enter'' 3000 quantum_typed) \<noteq> None
   \<and> snd (onKeyPress ''Enter'' 3001 (fst (onKeyPress ''Enter'' 3000 quantum_typed))) = None
   \<and> snd (onSendClick 3001 (fst (onKeyPress ''Enter'' 3000 quantum_typed))) = None"
proof -
  have l: "isLoading (typeText ''hi'' quantum_initializing)"
    by (simp add: typeText_def quantum_initializing_fields)
  then have l': "isLoading (typeText ''hi'' quantum_initializing)
                   \<or> isInitializingStudy (typeText ''hi'' quantum_initializing)" by simp
  note G = input_gate [where s = "typeText ''hi'' quantum_initializing" and key = "''Enter''"
      and t = 2500, THEN conjunct1, THEN mp, OF l']
  have f: "\<not> isLoading quantum_typed" "\<not> isInitializingStudy quantum_typed"
    by (simp_all add: scenario_defs)
  have h: "\<not> isLoading quantum_typed \<and> \<not> isInitializingStudy quantum_typed
        \<and> activeStudy quantum_typed = Some (newStudy 2000 ''Quantum Physics'')
        \<and> \<not> trim_is_empty (inputValue quantum_typed)"
    using f quantum_active quantum_input(2) by simp
  note U = input_gate [where s = quantum_typed and key = "''Enter''" and t = 3000 and t' = 3001,
      THEN conjunct2, THEN mp, OF h]
  from U have u1: "snd (onKeyPress ''Enter'' 3000 quantum_typed) \<noteq> None"
    and u2: "snd (onKeyPress ''Enter'' 3001 (fst (onKeyPress ''Enter'' 3000 quantum_typed))) = None"
    and u3: "snd (onSendClick 3001 (fst (onKeyPress ''Enter'' 3000 quantum_typed))) = None"
    by simp_all
  from l G f u1 u2 u3 show ?thesis by (intro conjI) simp_all
qed

subsection \<open>The study groups\<close>

lemma findIndex_None: "findIndex p xs = None \<longleftrightarrow> (\<forall>x \<in> set xs. \<not> p x)"
  by (induction xs) auto

lemma findIndex_Some:
  "findIndex p xs = Some i \<Longrightarrow> i < length xs \<and> p (xs ! i) \<and> (\<forall>j < i. \<not> p (xs ! j))"
proof (induction xs arbitrary: i)
  case Nil
  then show ?case by simp
next
  case (Cons x xs)
  show ?case
  proof (cases "p x")
    case True
    with Cons.prems show ?thesis by simp
  next
    case False
    with Cons.prems obtain k where k: "findIndex p xs = Some k" "i = Suc k" by auto
    from Cons.IH [OF k(1)] False k(2) show ?thesis
      by (auto simp: nth_Cons split: nat.splits)
  qed
qed

lemma addToStudyGroups_new:
  "subject st \<notin> set (map name gs) \<Longrightarrow> addToStudyGroups st gs = newGroup st # gs"
proof -
  assume "subject st \<notin> set (map name gs)"
  then have "findIndex (\<lambda>group. name group = subject st) gs = None"
    unfolding findIndex_None by (metis image_eqI set_map)
  then show ?thesis by (simp add: addToStudyGroups_def)
qed

lemma addToStudyGroups_old:
  assumes "subject st \<in> set (map name gs)"
  shows "\<exists>i < length gs. name (gs ! i) = subject st \<and> (\<forall>j < i. name (gs ! j) \<noteq> subject st)
           \<and> addToStudyGroups st gs = gs[i := (gs ! i)\<lparr>studies := st # studies (gs ! i)\<rparr>]"
proof -
  from assms have "findIndex (\<lambda>group. name group = subject st) gs \<noteq> None"
    by (auto simp: findIndex_None)
  then obtain i where i: "findIndex (\<lambda>group. name group = subject st) gs = Some i" by auto
  from findIndex_Some [OF i] i show ?thesis
    by (auto simp: addToStudyGroups_def)
qed

lemma mset_studies_update:
  "i < length gs \<Longrightarrow>
     mset (concat (map studies (gs[i := (gs ! i)\<lparr>studies := st # studies (gs ! i)\<rparr>])))
       = add_mset st (mset (concat (map studies gs)))"
proof (induction gs arbitrary: i)
  case Nil
  then show ?case by simp
next
  case (Cons g gs)
  then show ?case by (cases i) simp_all
qed

lemma mset_addToStudyGroups:
  "mset (concat (map studies (addToStudyGroups st gs))) = add_mset st (mset (concat (map studies gs)))"
proof (cases "subject st \<in> set (map name gs)")
  case True
  from addToStudyGroups_old [OF True] show ?thesis
    by (auto simp: mset_studies_update)
next
  case False
  then show ?thesis by (simp add: addToStudyGroups_new newGroup_def)
qed

lemma grouped_addToStudyGroups:
  assumes "grouped gs R"
  shows "grouped (addToStudyGroups st gs) (st # R)"
proof (cases "subject st \<in> set (map name gs)")
  case False
  from assms have names: "map name gs = remdups (map subject R)"
    and parts: "\<forall>g \<in> set gs. studies g = filter (\<lambda>x. subject x = name g) R"
    by (simp_all add: grouped_def)
  from False names have fresh: "subject st \<notin> set (map subject R)"
    by (metis set_remdups)
  then have none: "filter (\<lambda>x. subject x = subject st) R = []"
    unfolding filter_empty_conv by (metis image_eqI set_map)
  have other: "filter (\<lambda>x. subject x = name g) (st # R) = filter (\<lambda>x. subject x = name g) R"
    if "g \<in> set gs" for g
    using that False by auto
  show ?thesis
    unfolding addToStudyGroups_new [OF False] grouped_def
    using names parts fresh none other by (auto simp: newGroup_def)
next
  case True
  from assms have names: "map name gs = remdups (map subject R)"
    and parts: "\<forall>g \<in> set gs. studies g = filter (\<lambda>x. subject x = name g) R"
    by (simp_all add: grouped_def)
  from names have dist: "distinct (map name gs)" by simp
  from True names have seen: "subject st \<in> set (map subject R)"
    by (metis set_remdups)
  from addToStudyGroups_old [OF True] obtain i where i: "i < length gs"
    "name (gs ! i) = subject st"
    "addToStudyGroups st gs = gs[i := (gs ! i)\<lparr>studies := st # studies (gs ! i)\<rparr>]"
    by blast
  define g' where "g' = (gs ! i)\<lparr>studies := st # studies (gs ! i)\<rparr>"
  have name': "name g' = subject st" by (simp add: g'_def i(2))
  have "map name (gs[i := g']) = (map name gs)[i := name (gs ! i)]"
    by (simp add: map_update name' i(2))
  also have "\<dots> = map name gs" using i(1) by (simp add: list_update_same_conv)
  finally have names': "map name (gs[i := g']) = remdups (map subject (st # R))"
    using names seen by simp
  have parts': "studies g = filter (\<lambda>x. subject x = name g) (st # R)"
    if "g \<in> set (gs[i := g'])" for g
  proof -
    from that obtain j where j: "j < length gs" "g = gs[i := g'] ! j"
      by (auto simp: in_set_conv_nth)
    show ?thesis
    proof (cases "j = i")
      case True
      with j i(1) have "g = g'" by simp
      moreover from parts i(1) have "studies (gs ! i) = filter (\<lambda>x. subject x = subject st) R"
        using i(2) by (metis nth_mem)
      ultimately show ?thesis by (simp add: g'_def i(2))
    next
      case False
      with j have g: "g = gs ! j" by simp
      from dist j(1) i(1) False have "name (gs ! j) \<noteq> name (gs ! i)"
        by (simp add: distinct_conv_nth)
      with g i(2) have "name g \<noteq> subject st" by simp
      moreover from parts j(1) g have "studies g = filter (\<lambda>x. subject x = name g) R"
        by simp
      ultimately show ?thesis by auto
    qed
  qed
  from names' parts' show ?thesis
    unfolding i(3) g'_def [symmetric] grouped_def by blast
qed

lemma startNewStudy_user: "user (startNewStudy t0 topic t outcome s) = user s"
proof (cases "user s")
  case None
  then show ?thesis by (simp add: startNewStudy_def startNewStudy_begin_no_user)
next
  case (Some u)
  then show ?thesis
    by (simp add: startNewStudy_def startNewStudy_begin_user [OF Some] startNewStudy_settle_def
        backend_settle_def generateMessageId_def saveCurrentMessages_def Let_def
        split: Outcome.splits option.splits)
qed

lemma startNewStudy_groups:
  assumes "user s = Some u"
  shows "studyGroups (startNewStudy t0 topic t outcome s)
           = addToStudyGroups (newStudy t0 topic) (studyGroups s)"
  by (simp add: startNewStudy_def startNewStudy_begin_user [OF assms] startNewStudy_settle_def
      backend_settle_def generateMessageId_def saveCurrentMessages_def Let_def
      split: Outcome.splits option.splits)

lemma start_all_snoc:
  "start_all (calls @ [(t0, topic, t, outcome)]) s
     = startNewStudy t0 topic t outcome (start_all calls s)"
  by (induction calls arbitrary: s) auto

lemma start_all_user: "user (start_all calls s) = user s"
  by (induction calls arbitrary: s) (auto simp: startNewStudy_user)

lemma start_all_grouped:
  assumes "user s0 = Some u" and "studyGroups s0 = []"
  shows "grouped (studyGroups (start_all calls s0)) (created calls)
         \<and> mset (concat (map studies (studyGroups (start_all calls s0)))) = mset (created calls)"
proof (induction calls rule: rev_induct)
  case Nil
  from assms(2) show ?case by (simp add: grouped_def created_def)
next
  case (snoc c calls)
  obtain t0 topic t outcome where c: "c = (t0, topic, t, outcome)" by (cases c)
  have u: "user (start_all calls s0) = Some u" by (simp add: start_all_user assms(1))
  have cr: "created (calls @ [c]) = newStudy t0 topic # created calls"
    by (simp add: created_def c)
  from snoc.IH show ?case
    unfolding c start_all_snoc startNewStudy_groups [OF u] cr [unfolded c]
    by (simp add: grouped_addToStudyGroups mset_addToStudyGroups)
qed

text \<open>
  C6. After any run of \<^verbatim>\<open>startNewStudy\<close> calls with a user logged in, starting with no
  groups: the studies of all groups together are exactly the studies created, each as
  often as it was created; every group holds the created studies of its subject, the
  newest first, and is not empty; no two groups have the same name; the groups stand in
  the order in which their subjects were first seen, the subject seen last at the front.
  A further call puts a new group holding only the new study at the front of the list
  when the subject has no group yet, and otherwise puts the new study at the front of
  the group of its subject.
\<close>

theorem startNewStudy_groups_partition:
  assumes "user s0 = Some u" and "studyGroups s0 = []"
  shows "let gs = studyGroups (start_all calls s0); R = created calls
         in mset (concat (map studies gs)) = mset R
          \<and> (\<forall>g \<in> set gs. studies g = filter (\<lambda>st. subject st = name g) R \<and> studies g \<noteq> [])
          \<and> distinct (map name gs)
          \<and> map name gs = remdups (map subject R)
          \<and> (\<forall>t0 topic t outcome.
                let st = newStudy t0 topic;
                    gs' = studyGroups (startNewStudy t0 topic t outcome (start_all calls s0))
                in (subject st \<notin> set (map name gs) \<longrightarrow> gs' = newGroup st # gs)
                 \<and> (subject st \<in> set (map name gs) \<longrightarrow>
                      (\<exists>i < length gs. name (gs ! i) = subject st
                         \<and> gs' = gs[i := (gs ! i)\<lparr>studies := st # studies (gs ! i)\<rparr>])))"
proof -
  define gs where "gs = studyGroups (start_all calls s0)"
  define R where "R = created calls"
  from start_all_grouped [OF assms, of calls]
  have g: "grouped gs R" and m: "mset (concat (map studies gs)) = mset R"
    by (simp_all add: gs_def R_def)
  from g have names: "map name gs = remdups (map subject R)"
    and parts: "\<forall>g \<in> set gs. studies g = filter (\<lambda>st. subject st = name g) R"
    by (simp_all add: grouped_def)
  from names have dist: "distinct (map name gs)" by simp
  have nonempty: "studies g \<noteq> []" if "g \<in> set gs" for g
  proof -
    from that have "name g \<in> set (map name gs)" by simp
    with names have "name g \<in> set (map subject R)" by (metis set_remdups)
    then obtain st where "st \<in> set R" "subject st = name g" by auto
    then have "filter (\<lambda>st. subject st = name g) R \<noteq> []"
      by (auto simp: filter_empty_conv)
    with parts that show ?thesis by simp
  qed
  have u: "user (start_all calls s0) = Some u" by (simp add: start_all_user assms(1))
  have step_new: "studyGroups (startNewStudy t0 topic t outcome (start_all calls s0))
                    = newGroup (newStudy t0 topic) # gs"
    if "subject (newStudy t0 topic) \<notin> set (map name gs)" for t0 topic t outcome
    using that by (simp add: startNewStudy_groups [OF u] addToStudyGroups_new gs_def)
  have step_old: "\<exists>i < length gs. name (gs ! i) = subject (newStudy t0 topic)
         \<and> studyGroups (startNewStudy t0 topic t outcome (start_all calls s0))
             = gs[i := (gs ! i)\<lparr>studies := newStudy t0 topic # studies (gs ! i)\<rparr>]"
    if "subject (newStudy t0 topic) \<in> set (map name gs)" for t0 topic t outcome
    using addToStudyGroups_old [OF that]
    unfolding startNewStudy_groups [OF u] gs_def by blast
  from m parts nonempty dist names step_new step_old show ?thesis
    unfolding Let_def gs_def [symmetric] R_def [symmetric] by blast
qed

theorem startNewStudy_groups_partition_witness:
  "user ada_logged_in \<noteq> None \<and> studyGroups ada_logged_in = []
   \<and> map title (created three_starts) = [''Energy and force'', ''Calculus'', ''Quantum Physics'']
   \<and> map name (studyGroups (start_all three_starts ada_logged_in)) = [''Mathematics'', ''Physics'']
   \<and> map (map title \<circ> studies) (studyGroups (start_all three_starts ada_logged_in))
       = [[''Calculus''], [''Energy and force'', ''Quantum Physics'']]
   \<and> studyGroups (startNewStudy 5000 ''Cell Biology'' 5100 Failed
                    (start_all three_starts ada_logged_in))
       = newGroup (newStudy 5000 ''Cell Biology'') # studyGroups (start_all three_starts ada_logged_in)
   \<and> map (map title \<circ> studies)
         (studyGroups (startNewStudy 6000 ''Algebra'' 6100 Failed
                         (start_all three_starts ada_logged_in)))
       = [[''Algebra'', ''Calculus''], [''Energy and force'', ''Quantum Physics'']]"
proof -
  have subj: "determineSubject ''Quantum Physics'' = ''Physics''"
    "determineSubject ''Calculus'' = ''Mathematics''"
    "determineSubject ''Energy and force'' = ''Physics''"
    "determineSubject ''Cell Biology'' = ''Biology''"
    "determineSubject ''Algebra'' = ''Mathematics''"
    by code_simp+
  have R: "created three_starts =
      [newStudy 4000 ''Energy and force'', newStudy 3000 ''Calculus'', newStudy 2000 ''Quantum Physics'']"
    by (simp add: created_def three_starts_def)
  have S: "map subject (created three_starts) = [''Physics'', ''Mathematics'', ''Physics'']"
    by (simp add: R newStudy_def subj)
  note T = startNewStudy_groups_partition [OF ada_user ada_fields(3), of three_starts,
      unfolded Let_def]
  note T2 = T [THEN conjunct2, THEN conjunct1]
  note T4 = T [THEN conjunct2, THEN conjunct2, THEN conjunct2, THEN conjunct1]
  note T5 = T [THEN conjunct2, THEN conjunct2, THEN conjunct2, THEN conjunct2, THEN spec,
      of 5000, THEN spec, of "''Cell Biology''", THEN spec, of 5100, THEN spec, of Failed,
      THEN conjunct1]
  from T4 have names: "map name (studyGroups (start_all three_starts ada_logged_in))
                         = [''Mathematics'', ''Physics'']"
    by (simp add: S)
  have "map studies (studyGroups (start_all three_starts ada_logged_in))
          = map (\<lambda>g. filter (\<lambda>st. subject st = name g) (created three_starts))
              (studyGroups (start_all three_starts ada_logged_in))"
    using T2 by (intro map_cong) simp_all
  also have "\<dots> = map (\<lambda>n. filter (\<lambda>st. subject st = n) (created three_starts))
                     (map name (studyGroups (start_all three_starts ada_logged_in)))"
    by (simp add: comp_def)
  also have "\<dots> = [[newStudy 3000 ''Calculus''],
                    [newStudy 4000 ''Energy and force'', newStudy 2000 ''Quantum Physics'']]"
    unfolding names by (simp add: R newStudy_def subj)
  finally have parts: "map (map title \<circ> studies) (studyGroups (start_all three_starts ada_logged_in))
       = [[''Calculus''], [''Energy and force'', ''Quantum Physics'']]"
    by (simp add: newStudy_def flip: map_map)
  have fresh: "subject (newStudy 5000 ''Cell Biology'')
                 \<notin> set (map name (studyGroups (start_all three_starts ada_logged_in)))"
    unfolding names by (simp add: newStudy_def subj)
  note step = T5 [THEN mp, OF fresh]
  have u: "user ada_logged_in \<noteq> None" by (simp add: ada_user)
  have titles: "map title (created three_starts)
                  = [''Energy and force'', ''Calculus'', ''Quantum Physics'']"
    by (simp add: R newStudy_def)
  note T6 = T [THEN conjunct2, THEN conjunct2, THEN conjunct2, THEN conjunct2, THEN spec,
      of 6000, THEN spec, of "''Algebra''", THEN spec, of 6100, THEN spec, of Failed,
      THEN conjunct2]
  have seen: "subject (newStudy 6000 ''Algebra'')
                \<in> set (map name (studyGroups (start_all three_starts ada_logged_in)))"
    unfolding names by (simp add: newStudy_def subj)
  from T6 [THEN mp, OF seen] obtain i
    where i: "i < length (studyGroups (start_all three_starts ada_logged_in))"
      "name (studyGroups (start_all three_starts ada_logged_in) ! i)
         = subject (newStudy 6000 ''Algebra'')"
      "studyGroups (startNewStudy 6000 ''Algebra'' 6100 Failed (start_all three_starts ada_logged_in))
         = (studyGroups (start_all three_starts ada_logged_in))
             [i := (studyGroups (start_all three_starts ada_logged_in) ! i)
                     \<lparr>studies := newStudy 6000 ''Algebra''
                                   # studies (studyGroups (start_all three_starts ada_logged_in) ! i)\<rparr>]"
    by blast
  have "length (map name (studyGroups (start_all three_starts ada_logged_in))) = 2"
    unfolding names by simp
  then have len: "length (studyGroups (start_all three_starts ada_logged_in)) = 2" by simp
  have "map name (studyGroups (start_all three_starts ada_logged_in)) ! 1 = ''Physics''"
    unfolding names by simp
  with len have n1: "name (studyGroups (start_all three_starts ada_logged_in) ! 1) = ''Physics''"
    by simp
  from i(1,2) len n1 have i0: "i = 0"
    by (cases i) (auto simp: newStudy_def subj)
  have "map (map title \<circ> studies)
          (studyGroups (startNewStudy 6000 ''Algebra'' 6100 Failed (start_all three_starts ada_logged_in)))
        = (map (map title \<circ> studies) (studyGroups (start_all three_starts ada_logged_in)))
            [0 := ''Algebra''
                    # (map (map title \<circ> studies) (studyGroups (start_all three_starts ada_logged_in))) ! 0]"
    unfolding i(3) i0 using len by (simp add: map_update newStudy_def)
  then have old: "map (map title \<circ> studies)
         (studyGroups (startNewStudy 6000 ''Algebra'' 6100 Failed
                         (start_all three_starts ada_logged_in)))
       = [[''Algebra'', ''Calculus''], [''Energy and force'', ''Quantum Physics'']]"
    unfolding parts by simp
  from u ada_fields(3) titles names parts step old show ?thesis by (intro conjI)
qed

end
